theory Spec2Isabelle
  imports Main "HOL-Library.Sublist" "HOL-Library.Word"
begin

section \<open>Terraform provider for Garage: the client and the resource adapters\<close>

text \<open>
  The development follows the Go sources: the package \<open>client\<close> (one method per Admin
  API endpoint, all built on \<open>doRequest\<close>) and the package \<open>provider\<close> (the resource
  adapters for \<open>garage_bucket\<close>, \<open>garage_key\<close> and \<open>garage_bucket_permission\<close>).

  A Go \<open>error\<close> is modelled by its message, a pair \<open>(*T, error)\<close> by a sum
  \<open>error + T\<close> (\<open>Inl\<close> the error), and a pointer that may be \<open>nil\<close> by an option.
  Go strings are byte sequences, so they are \<open>string\<close>s here.
\<close>

type_synonym error = string

type_synonym int64 = "64 word"

subsection \<open>Values of the plugin framework\<close>

text \<open>
  A \<open>types.String\<close>, \<open>types.Bool\<close> or \<open>types.Int64\<close> of the plugin framework is null,
  unknown or known. The accessors \<open>ValueString\<close>, \<open>ValueBool\<close> and \<open>ValueInt64\<close> return
  the zero value of the Go type when the value is null or unknown.
\<close>

datatype 'a tfval = TfNull | TfUnknown | TfKnown 'a

fun IsNull :: "'a tfval \<Rightarrow> bool" where
  "IsNull TfNull = True"
| "IsNull TfUnknown = False"
| "IsNull (TfKnown v) = False"

fun ValueString :: "string tfval \<Rightarrow> string" where
  "ValueString (TfKnown s) = s"
| "ValueString TfNull = []"
| "ValueString TfUnknown = []"

fun ValueBool :: "bool tfval \<Rightarrow> bool" where
  "ValueBool (TfKnown b) = b"
| "ValueBool TfNull = False"
| "ValueBool TfUnknown = False"

fun ValueInt64 :: "int64 tfval \<Rightarrow> int64" where
  "ValueInt64 (TfKnown n) = n"
| "ValueInt64 TfNull = 0"
| "ValueInt64 TfUnknown = 0"

subsection \<open>Go library functions used by the client\<close>

text \<open>\<open>strings.HasSuffix\<close> and \<open>strings.TrimSuffix\<close>: at most one copy of the suffix goes.\<close>

definition HasSuffix :: "string \<Rightarrow> string \<Rightarrow> bool" where
  "HasSuffix s suf =
     (length suf \<le> length s \<and> drop (length s - length suf) s = suf)"

definition TrimSuffix :: "string \<Rightarrow> string \<Rightarrow> string" where
  "TrimSuffix s suf =
     (if HasSuffix s suf then take (length s - length suf) s else s)"

text \<open>The verb \<open>%d\<close> of \<open>fmt\<close>: a decimal numeral, with a minus sign below zero.\<close>

definition digit_char :: "nat \<Rightarrow> char" where
  "digit_char d = ''0123456789'' ! d"

function nat_dec :: "nat \<Rightarrow> string" where
  "nat_dec n = (if n < 10 then [digit_char n] else nat_dec (n div 10) @ [digit_char (n mod 10)])"
  by pat_completeness auto
termination
  by (relation "measure (\<lambda>n. n)") auto

declare nat_dec.simps [simp del]

definition fmt_d :: "int \<Rightarrow> string" where
  "fmt_d i = (if i < 0 then CHR ''-'' # nat_dec (nat (- i)) else nat_dec (nat i))"

subsection \<open>The client: data\<close>

record Client =
  endpoint :: string
  token :: string

record WebsiteConfig =
  IndexDocument :: string
  ErrorDocument :: string

record Permissions =
  Read :: bool
  Write :: bool
  Owner :: bool

record BucketKeyInfo =
  ki_AccessKeyID :: string
  ki_Name :: string
  ki_Permissions :: Permissions

record BucketQuotas =
  MaxSize :: "int64 option"
  MaxObjects :: "int64 option"

record Bucket =
  b_ID :: string
  b_GlobalAliases :: "string list"
  b_WebsiteAccess :: bool
  b_WebsiteConfig :: "WebsiteConfig option"
  b_Keys :: "BucketKeyInfo list"
  b_Objects :: int64
  b_Bytes :: int64
  b_UnfinishedUploads :: int64
  b_Quotas :: "BucketQuotas option"

record LocalAlias =
  la_AccessKeyID :: string
  la_Alias :: string

record CreateBucketRequest =
  cb_GlobalAlias :: "string option"
  cb_LocalAlias :: "LocalAlias option"

record WebsiteAccessRequest =
  wa_Enabled :: bool
  wa_IndexDocument :: "string option"
  wa_ErrorDocument :: "string option"

record UpdateBucketRequest =
  ub_WebsiteAccess :: "WebsiteAccessRequest option"
  ub_Quotas :: "BucketQuotas option"

record DeleteBucketRequest =
  db_ID :: string

record GetBucketInfoRequest =
  gb_ID :: "string option"
  gb_GlobalAlias :: "string option"

record BucketKeyPermRequest =
  pr_BucketID :: string
  pr_AccessKeyID :: string
  pr_Permissions :: Permissions

record KeyPermissions =
  CreateBucket_perm :: bool

record KeyBucketInfo =
  kb_ID :: string
  kb_GlobalAliases :: "string list"
  kb_LocalAliases :: "string list"
  kb_Permissions :: Permissions

record AccessKey =
  ak_AccessKeyID :: string
  ak_Name :: string
  ak_Expired :: bool
  ak_Created :: "string option"
  ak_Expiration :: "string option"
  ak_SecretAccessKey :: "string option"
  ak_Permissions :: KeyPermissions
  ak_Buckets :: "KeyBucketInfo list"

record CreateKeyRequest =
  ck_Name :: "string option"
  ck_Expiration :: "string option"

record DeleteKeyRequest =
  dk_ID :: string

record GetKeyInfoRequest =
  gk_ID :: string

subsection \<open>The client: HTTP\<close>

text \<open>
  What \<open>doRequest\<close> is given as its \<open>body\<close>: one of the request structs, or the
  string map of the alias calls.
\<close>

datatype req_body =
    BodyCreateBucket CreateBucketRequest
  | BodyUpdateBucket UpdateBucketRequest
  | BodyMap "(string \<times> string) list"
  | BodyPerm BucketKeyPermRequest
  | BodyCreateKey CreateKeyRequest

record http_request =
  rq_Method :: string
  rq_URL :: string
  rq_Header :: "string \<rightharpoonup> string"
  rq_Body :: "string option"

record http_response =
  StatusCode :: int
  Body :: string

text \<open>
  The packages the client calls and does not define: \<open>json.Marshal\<close>,
  \<open>http.NewRequestWithContext\<close>, the \<open>Do\<close> of the HTTP client (the server behind it
  included) and the JSON decoder at the three types the client decodes. They are
  parameters of every client function. \<open>Body\<close> of a response is what \<open>io.ReadAll\<close>
  returns for it.
\<close>

record env =
  Marshal :: "req_body \<Rightarrow> error + string"
  NewRequestWithContext :: "string \<Rightarrow> string \<Rightarrow> string option \<Rightarrow> error + http_request"
  Do :: "http_request \<Rightarrow> error + http_response"
  DecodeBuckets :: "string \<Rightarrow> error + Bucket list"
  DecodeBucket :: "string \<Rightarrow> error + Bucket"
  DecodeAccessKey :: "string \<Rightarrow> error + AccessKey"

abbreviation StatusOK :: int where "StatusOK \<equiv> 200"
abbreviation StatusCreated :: int where "StatusCreated \<equiv> 201"
abbreviation StatusNoContent :: int where "StatusNoContent \<equiv> 204"
abbreviation StatusNotFound :: int where "StatusNotFound \<equiv> 404"

definition NewClient :: "string \<Rightarrow> string \<Rightarrow> Client" where
  "NewClient endpoint' token' =
     \<lparr>endpoint = TrimSuffix endpoint' ''/'', token = token'\<rparr>"

definition marshal_body :: "env \<Rightarrow> req_body option \<Rightarrow> error + string option" where
  "marshal_body env body =
     (case body of
        None \<Rightarrow> Inr None
      | Some b \<Rightarrow>
          (case Marshal env b of
             Inl err \<Rightarrow> Inl (''failed to marshal request body: '' @ err)
           | Inr jsonData \<Rightarrow> Inr (Some jsonData)))"

definition doRequest ::
  "env \<Rightarrow> Client \<Rightarrow> string \<Rightarrow> string \<Rightarrow> req_body option \<Rightarrow> error + http_response" where
  "doRequest env c method path body =
     (case marshal_body env body of
        Inl err \<Rightarrow> Inl err
      | Inr reqBody \<Rightarrow>
          (case NewRequestWithContext env method (endpoint c @ path) reqBody of
             Inl err \<Rightarrow> Inl (''failed to create request: '' @ err)
           | Inr req \<Rightarrow>
               (case Do env (req\<lparr>rq_Header := (rq_Header req)
                                 (''Authorization'' \<mapsto> ''Bearer '' @ token c,
                                  ''Content-Type'' \<mapsto> ''application/json'')\<rparr>) of
                  Inl err \<Rightarrow> Inl (''failed to execute request: '' @ err)
                | Inr resp \<Rightarrow> Inr resp)))"

text \<open>The error every method builds from a response it does not accept.\<close>

definition status_error :: "http_response \<Rightarrow> error" where
  "status_error resp =
     ''API request failed with status '' @ fmt_d (StatusCode resp) @ '': '' @ Body resp"

definition decode_error :: "error \<Rightarrow> error" where
  "decode_error err = ''failed to decode response: '' @ err"

definition ListBuckets :: "env \<Rightarrow> Client \<Rightarrow> error + Bucket list" where
  "ListBuckets env c =
     (case doRequest env c ''GET'' ''/v2/ListBuckets'' None of
        Inl err \<Rightarrow> Inl err
      | Inr resp \<Rightarrow>
          if StatusCode resp \<noteq> StatusOK then Inl (status_error resp)
          else (case DecodeBuckets env (Body resp) of
                  Inl err \<Rightarrow> Inl (decode_error err)
                | Inr buckets \<Rightarrow> Inr buckets))"

definition GetBucketInfo_path :: "GetBucketInfoRequest \<Rightarrow> string" where
  "GetBucketInfo_path req =
     (case gb_ID req of
        Some i \<Rightarrow> ''/v2/GetBucketInfo?'' @ ''id='' @ i
      | None \<Rightarrow>
          (case gb_GlobalAlias req of
             Some a \<Rightarrow> ''/v2/GetBucketInfo?'' @ ''globalAlias='' @ a
           | None \<Rightarrow> ''/v2/GetBucketInfo?''))"

definition GetBucketInfo :: "env \<Rightarrow> Client \<Rightarrow> GetBucketInfoRequest \<Rightarrow> error + Bucket option" where
  "GetBucketInfo env c req =
     (case doRequest env c ''GET'' (GetBucketInfo_path req) None of
        Inl err \<Rightarrow> Inl err
      | Inr resp \<Rightarrow>
          if StatusCode resp = StatusNotFound then Inr None
          else if StatusCode resp \<noteq> StatusOK then Inl (status_error resp)
          else (case DecodeBucket env (Body resp) of
                  Inl err \<Rightarrow> Inl (decode_error err)
                | Inr bucket \<Rightarrow> Inr (Some bucket)))"

definition CreateBucket :: "env \<Rightarrow> Client \<Rightarrow> CreateBucketRequest \<Rightarrow> error + Bucket" where
  "CreateBucket env c req =
     (case doRequest env c ''POST'' ''/v2/CreateBucket'' (Some (BodyCreateBucket req)) of
        Inl err \<Rightarrow> Inl err
      | Inr resp \<Rightarrow>
          if StatusCode resp \<noteq> StatusOK \<and> StatusCode resp \<noteq> StatusCreated
          then Inl (status_error resp)
          else (case DecodeBucket env (Body resp) of
                  Inl err \<Rightarrow> Inl (decode_error err)
                | Inr bucket \<Rightarrow> Inr bucket))"

definition UpdateBucket :: "env \<Rightarrow> Client \<Rightarrow> string \<Rightarrow> UpdateBucketRequest \<Rightarrow> error + Bucket" where
  "UpdateBucket env c bucketID req =
     (case doRequest env c ''POST'' (''/v2/UpdateBucket?id='' @ bucketID)
             (Some (BodyUpdateBucket req)) of
        Inl err \<Rightarrow> Inl err
      | Inr resp \<Rightarrow>
          if StatusCode resp \<noteq> StatusOK then Inl (status_error resp)
          else (case DecodeBucket env (Body resp) of
                  Inl err \<Rightarrow> Inl (decode_error err)
                | Inr bucket \<Rightarrow> Inr bucket))"

text \<open>The methods that return only an error: \<open>None\<close> is Go's \<open>nil\<close> error.\<close>

definition DeleteBucket :: "env \<Rightarrow> Client \<Rightarrow> DeleteBucketRequest \<Rightarrow> error option" where
  "DeleteBucket env c req =
     (case doRequest env c ''POST'' (''/v2/DeleteBucket?id='' @ db_ID req) None of
        Inl err \<Rightarrow> Some err
      | Inr resp \<Rightarrow>
          if StatusCode resp \<noteq> StatusOK \<and> StatusCode resp \<noteq> StatusNoContent
          then Some (status_error resp)
          else None)"

definition AddBucketAlias :: "env \<Rightarrow> Client \<Rightarrow> string \<Rightarrow> string \<Rightarrow> error option" where
  "AddBucketAlias env c bucketID alias =
     (case doRequest env c ''POST'' ''/v2/AddBucketAlias''
             (Some (BodyMap [(''id'', bucketID), (''alias'', alias)])) of
        Inl err \<Rightarrow> Some err
      | Inr resp \<Rightarrow>
          if StatusCode resp \<noteq> StatusOK \<and> StatusCode resp \<noteq> StatusNoContent
          then Some (status_error resp)
          else None)"

definition RemoveBucketAlias :: "env \<Rightarrow> Client \<Rightarrow> string \<Rightarrow> string \<Rightarrow> error option" where
  "RemoveBucketAlias env c bucketID alias =
     (case doRequest env c ''POST'' ''/v2/RemoveBucketAlias''
             (Some (BodyMap [(''id'', bucketID), (''alias'', alias)])) of
        Inl err \<Rightarrow> Some err
      | Inr resp \<Rightarrow>
          if StatusCode resp \<noteq> StatusOK \<and> StatusCode resp \<noteq> StatusNoContent
          then Some (status_error resp)
          else None)"

definition AllowBucketKey :: "env \<Rightarrow> Client \<Rightarrow> BucketKeyPermRequest \<Rightarrow> error + Bucket" where
  "AllowBucketKey env c req =
     (case doRequest env c ''POST'' ''/v2/AllowBucketKey'' (Some (BodyPerm req)) of
        Inl err \<Rightarrow> Inl err
      | Inr resp \<Rightarrow>
          if StatusCode resp \<noteq> StatusOK then Inl (status_error resp)
          else (case DecodeBucket env (Body resp) of
                  Inl err \<Rightarrow> Inl (decode_error err)
                | Inr bucket \<Rightarrow> Inr bucket))"

definition DenyBucketKey :: "env \<Rightarrow> Client \<Rightarrow> BucketKeyPermRequest \<Rightarrow> error + Bucket" where
  "DenyBucketKey env c req =
     (case doRequest env c ''POST'' ''/v2/DenyBucketKey'' (Some (BodyPerm req)) of
        Inl err \<Rightarrow> Inl err
      | Inr resp \<Rightarrow>
          if StatusCode resp \<noteq> StatusOK then Inl (status_error resp)
          else (case DecodeBucket env (Body resp) of
                  Inl err \<Rightarrow> Inl (decode_error err)
                | Inr bucket \<Rightarrow> Inr bucket))"

definition CreateKey :: "env \<Rightarrow> Client \<Rightarrow> CreateKeyRequest \<Rightarrow> error + AccessKey" where
  "CreateKey env c req =
     (case doRequest env c ''POST'' ''/v2/CreateKey'' (Some (BodyCreateKey req)) of
        Inl err \<Rightarrow> Inl err
      | Inr resp \<Rightarrow>
          if StatusCode resp \<noteq> StatusOK \<and> StatusCode resp \<noteq> StatusCreated
          then Inl (status_error resp)
          else (case DecodeAccessKey env (Body resp) of
                  Inl err \<Rightarrow> Inl (decode_error err)
                | Inr key \<Rightarrow> Inr key))"

definition GetKeyInfo :: "env \<Rightarrow> Client \<Rightarrow> GetKeyInfoRequest \<Rightarrow> error + AccessKey option" where
  "GetKeyInfo env c req =
     (case doRequest env c ''GET'' (''/v2/GetKeyInfo?id='' @ gk_ID req) None of
        Inl err \<Rightarrow> Inl err
      | Inr resp \<Rightarrow>
          if StatusCode resp = StatusNotFound then Inr None
          else if StatusCode resp \<noteq> StatusOK then Inl (status_error resp)
          else (case DecodeAccessKey env (Body resp) of
                  Inl err \<Rightarrow> Inl (decode_error err)
                | Inr key \<Rightarrow> Inr (Some key)))"

definition DeleteKey :: "env \<Rightarrow> Client \<Rightarrow> DeleteKeyRequest \<Rightarrow> error option" where
  "DeleteKey env c req =
     (case doRequest env c ''POST'' (''/v2/DeleteKey?id='' @ dk_ID req) None of
        Inl err \<Rightarrow> Some err
      | Inr resp \<Rightarrow>
          if StatusCode resp \<noteq> StatusOK \<and> StatusCode resp \<noteq> StatusNoContent
          then Some (status_error resp)
          else None)"

subsection \<open>The provider configuration\<close>

record GarageProviderModel =
  cfg_Endpoint :: "string tfval"
  cfg_Token :: "string tfval"

text \<open>
  \<open>Configure\<close> resolves both settings (the configuration first, the environment when
  the configured value is empty), reports each one that is still empty, and builds the
  client only when nothing was reported. \<open>getenv\<close> is \<open>os.Getenv\<close>.
\<close>

definition Configure ::
  "(string \<Rightarrow> string) \<Rightarrow> GarageProviderModel \<Rightarrow> string list \<times> Client option" where
  "Configure getenv data =
     (let endpoint0 = ValueString (cfg_Endpoint data);
          endpoint1 = (if endpoint0 = [] then getenv ''GARAGE_ENDPOINT'' else endpoint0);
          token0 = ValueString (cfg_Token data);
          token1 = (if token0 = [] then getenv ''GARAGE_TOKEN'' else token0);
          diags = (if endpoint1 = [] then [''Missing Garage Endpoint''] else []) @
                  (if token1 = [] then [''Missing Garage Token''] else [])
      in if diags \<noteq> [] then (diags, None)
         else ([], Some (NewClient endpoint1 token1)))"

subsection \<open>The resource adapters: what they see of the client and what they return\<close>

text \<open>
  An adapter holds a client and calls its methods. The methods an adapter calls are the
  fields of \<open>api\<close>; \<open>client_api\<close> is the client of the package \<open>client\<close>. Every adapter
  returns the calls it made, in order, and its outcome: an error diagnostic (summary and
  detail), the resource removed from the state, or the state it set. Reading the plan or
  the prior state into the model and writing the model back are the framework's part.
\<close>

record api =
  api_GetBucketInfo :: "GetBucketInfoRequest \<Rightarrow> error + Bucket option"
  api_CreateBucket :: "CreateBucketRequest \<Rightarrow> error + Bucket"
  api_UpdateBucket :: "string \<Rightarrow> UpdateBucketRequest \<Rightarrow> error + Bucket"
  api_AllowBucketKey :: "BucketKeyPermRequest \<Rightarrow> error + Bucket"
  api_DenyBucketKey :: "BucketKeyPermRequest \<Rightarrow> error + Bucket"
  api_CreateKey :: "CreateKeyRequest \<Rightarrow> error + AccessKey"
  api_GetKeyInfo :: "GetKeyInfoRequest \<Rightarrow> error + AccessKey option"

definition client_api :: "env \<Rightarrow> Client \<Rightarrow> api" where
  "client_api env c =
     \<lparr>api_GetBucketInfo = GetBucketInfo env c,
      api_CreateBucket = CreateBucket env c,
      api_UpdateBucket = UpdateBucket env c,
      api_AllowBucketKey = AllowBucketKey env c,
      api_DenyBucketKey = DenyBucketKey env c,
      api_CreateKey = CreateKey env c,
      api_GetKeyInfo = GetKeyInfo env c\<rparr>"

datatype call =
    CallGetBucketInfo GetBucketInfoRequest
  | CallCreateBucket CreateBucketRequest
  | CallUpdateBucket string UpdateBucketRequest
  | CallAllowBucketKey BucketKeyPermRequest
  | CallDenyBucketKey BucketKeyPermRequest
  | CallCreateKey CreateKeyRequest
  | CallGetKeyInfo GetKeyInfoRequest

datatype 'm outcome =
    Failed string string
  | RemoveResource
  | SetState 'm

fun is_allow :: "call \<Rightarrow> bool" where
  "is_allow (CallAllowBucketKey r) = True"
| "is_allow c = False"

fun is_deny :: "call \<Rightarrow> bool" where
  "is_deny (CallDenyBucketKey r) = True"
| "is_deny c = False"

subsection \<open>The bucket permission resource\<close>

record BucketPermissionResourceModel =
  bp_ID :: "string tfval"
  bp_BucketID :: "string tfval"
  bp_AccessKeyID :: "string tfval"
  bp_Read :: "bool tfval"
  bp_Write :: "bool tfval"
  bp_Owner :: "bool tfval"

text \<open>
  The loop of \<open>updateStateFromBucket\<close> over \<open>bucket.Keys\<close>: it stops at the first row
  of the access key and returns \<open>found\<close> with the model.
\<close>

fun updateStateFromBucket_loop ::
  "BucketPermissionResourceModel \<Rightarrow> string \<Rightarrow> BucketKeyInfo list
     \<Rightarrow> BucketPermissionResourceModel \<times> bool" where
  "updateStateFromBucket_loop data accessKeyID [] = (data, False)"
| "updateStateFromBucket_loop data accessKeyID (keyInfo # rest) =
     (if ki_AccessKeyID keyInfo = accessKeyID
      then (data\<lparr>bp_Read := TfKnown (Read (ki_Permissions keyInfo)),
                 bp_Write := TfKnown (Write (ki_Permissions keyInfo)),
                 bp_Owner := TfKnown (Owner (ki_Permissions keyInfo))\<rparr>, True)
      else updateStateFromBucket_loop data accessKeyID rest)"

definition updateStateFromBucket ::
  "BucketPermissionResourceModel \<Rightarrow> Bucket \<Rightarrow> BucketPermissionResourceModel" where
  "updateStateFromBucket data bucket =
     (case updateStateFromBucket_loop data (ValueString (bp_AccessKeyID data)) (b_Keys bucket) of
        (data', found) \<Rightarrow>
          if \<not> found
          then data'\<lparr>bp_Read := TfKnown False, bp_Write := TfKnown False,
                     bp_Owner := TfKnown False\<rparr>
          else data')"

definition Create_allowReq :: "BucketPermissionResourceModel \<Rightarrow> BucketKeyPermRequest" where
  "Create_allowReq data =
     \<lparr>pr_BucketID = ValueString (bp_BucketID data),
      pr_AccessKeyID = ValueString (bp_AccessKeyID data),
      pr_Permissions =
        \<lparr>Read = ValueBool (bp_Read data),
         Write = ValueBool (bp_Write data),
         Owner = ValueBool (bp_Owner data)\<rparr>\<rparr>"

definition BucketPermission_Create ::
  "api \<Rightarrow> BucketPermissionResourceModel
     \<Rightarrow> call list \<times> BucketPermissionResourceModel outcome" where
  "BucketPermission_Create cl data =
     (case api_AllowBucketKey cl (Create_allowReq data) of
        Inl err \<Rightarrow>
          ([CallAllowBucketKey (Create_allowReq data)],
           Failed ''Client Error'' (''Unable to create bucket permission, got error: '' @ err))
      | Inr bucket \<Rightarrow>
          ([CallAllowBucketKey (Create_allowReq data)],
           SetState
             (updateStateFromBucket
                (data\<lparr>bp_ID := TfKnown (ValueString (bp_BucketID data) @ ''/'' @
                                          ValueString (bp_AccessKeyID data))\<rparr>)
                bucket)))"

definition BucketPermission_Read ::
  "api \<Rightarrow> BucketPermissionResourceModel
     \<Rightarrow> call list \<times> BucketPermissionResourceModel outcome" where
  "BucketPermission_Read cl data =
     (let getReq = \<lparr>gb_ID = Some (ValueString (bp_BucketID data)), gb_GlobalAlias = None\<rparr>
      in case api_GetBucketInfo cl getReq of
           Inl err \<Rightarrow>
             ([CallGetBucketInfo getReq],
              Failed ''Client Error'' (''Unable to read bucket, got error: '' @ err))
         | Inr None \<Rightarrow> ([CallGetBucketInfo getReq], RemoveResource)
         | Inr (Some bucket) \<Rightarrow>
             ([CallGetBucketInfo getReq], SetState (updateStateFromBucket data bucket)))"

text \<open>
  \<open>Update\<close>, in the three steps of the source: the grant call when a flag is being
  enabled, the revoke call when a flag is being disabled, and the state. \<open>data\<close> is the
  plan and \<open>state\<close> the prior state; \<open>bucket\<close> is the source's variable of that name,
  \<open>None\<close> while it is \<open>nil\<close>.
\<close>

definition readChanged :: "BucketPermissionResourceModel \<Rightarrow> BucketPermissionResourceModel \<Rightarrow> bool" where
  "readChanged data state = (ValueBool (bp_Read data) \<noteq> ValueBool (bp_Read state))"

definition writeChanged :: "BucketPermissionResourceModel \<Rightarrow> BucketPermissionResourceModel \<Rightarrow> bool" where
  "writeChanged data state = (ValueBool (bp_Write data) \<noteq> ValueBool (bp_Write state))"

definition ownerChanged :: "BucketPermissionResourceModel \<Rightarrow> BucketPermissionResourceModel \<Rightarrow> bool" where
  "ownerChanged data state = (ValueBool (bp_Owner data) \<noteq> ValueBool (bp_Owner state))"

definition Update_allowReq ::
  "BucketPermissionResourceModel \<Rightarrow> BucketPermissionResourceModel \<Rightarrow> BucketKeyPermRequest" where
  "Update_allowReq data state =
     \<lparr>pr_BucketID = ValueString (bp_BucketID data),
      pr_AccessKeyID = ValueString (bp_AccessKeyID data),
      pr_Permissions =
        \<lparr>Read = (readChanged data state \<and> ValueBool (bp_Read data)),
         Write = (writeChanged data state \<and> ValueBool (bp_Write data)),
         Owner = (ownerChanged data state \<and> ValueBool (bp_Owner data))\<rparr>\<rparr>"

definition Update_denyReq ::
  "BucketPermissionResourceModel \<Rightarrow> BucketPermissionResourceModel \<Rightarrow> BucketKeyPermRequest" where
  "Update_denyReq data state =
     \<lparr>pr_BucketID = ValueString (bp_BucketID data),
      pr_AccessKeyID = ValueString (bp_AccessKeyID data),
      pr_Permissions =
        \<lparr>Read = (readChanged data state \<and> \<not> ValueBool (bp_Read data)),
         Write = (writeChanged data state \<and> \<not> ValueBool (bp_Write data)),
         Owner = (ownerChanged data state \<and> \<not> ValueBool (bp_Owner data))\<rparr>\<rparr>"

definition Update_finish ::
  "BucketPermissionResourceModel \<Rightarrow> call list \<Rightarrow> Bucket option
     \<Rightarrow> call list \<times> BucketPermissionResourceModel outcome" where
  "Update_finish data calls bucket =
     (case bucket of
        Some b \<Rightarrow> (calls, SetState (updateStateFromBucket data b))
      | None \<Rightarrow> (calls, SetState data))"

definition Update_deny ::
  "api \<Rightarrow> BucketPermissionResourceModel \<Rightarrow> BucketPermissionResourceModel \<Rightarrow> call list
     \<Rightarrow> Bucket option \<Rightarrow> call list \<times> BucketPermissionResourceModel outcome" where
  "Update_deny cl data state calls bucket =
     (if (readChanged data state \<and> \<not> ValueBool (bp_Read data)) \<or>
         (writeChanged data state \<and> \<not> ValueBool (bp_Write data)) \<or>
         (ownerChanged data state \<and> \<not> ValueBool (bp_Owner data))
      then (case api_DenyBucketKey cl (Update_denyReq data state) of
              Inl err \<Rightarrow>
                (calls @ [CallDenyBucketKey (Update_denyReq data state)],
                 Failed ''Client Error''
                   (''Unable to revoke bucket permissions, got error: '' @ err))
            | Inr b \<Rightarrow>
                Update_finish data (calls @ [CallDenyBucketKey (Update_denyReq data state)])
                  (Some b))
      else Update_finish data calls bucket)"

definition BucketPermission_Update ::
  "api \<Rightarrow> BucketPermissionResourceModel \<Rightarrow> BucketPermissionResourceModel
     \<Rightarrow> call list \<times> BucketPermissionResourceModel outcome" where
  "BucketPermission_Update cl data state =
     (if (readChanged data state \<and> ValueBool (bp_Read data)) \<or>
         (writeChanged data state \<and> ValueBool (bp_Write data)) \<or>
         (ownerChanged data state \<and> ValueBool (bp_Owner data))
      then (case api_AllowBucketKey cl (Update_allowReq data state) of
              Inl err \<Rightarrow>
                ([CallAllowBucketKey (Update_allowReq data state)],
                 Failed ''Client Error''
                   (''Unable to grant bucket permissions, got error: '' @ err))
            | Inr b \<Rightarrow>
                Update_deny cl data state [CallAllowBucketKey (Update_allowReq data state)]
                  (Some b))
      else Update_deny cl data state [] None)"

text \<open>
  The words of the specification for the reconciliation: a flag turns on when it differs
  and its new value is true, and turns off when it differs and its new value is false;
  the row of an access key is the first one of the key list with its id.
\<close>

definition turns_on :: "bool tfval \<Rightarrow> bool tfval \<Rightarrow> bool" where
  "turns_on old new = (ValueBool new \<noteq> ValueBool old \<and> ValueBool new)"

definition turns_off :: "bool tfval \<Rightarrow> bool tfval \<Rightarrow> bool" where
  "turns_off old new = (ValueBool new \<noteq> ValueBool old \<and> \<not> ValueBool new)"

definition any_turns_on ::
  "BucketPermissionResourceModel \<Rightarrow> BucketPermissionResourceModel \<Rightarrow> bool" where
  "any_turns_on data state =
     (turns_on (bp_Read state) (bp_Read data) \<or> turns_on (bp_Write state) (bp_Write data) \<or>
      turns_on (bp_Owner state) (bp_Owner data))"

definition any_turns_off ::
  "BucketPermissionResourceModel \<Rightarrow> BucketPermissionResourceModel \<Rightarrow> bool" where
  "any_turns_off data state =
     (turns_off (bp_Read state) (bp_Read data) \<or> turns_off (bp_Write state) (bp_Write data) \<or>
      turns_off (bp_Owner state) (bp_Owner data))"

definition row_for :: "string \<Rightarrow> Bucket \<Rightarrow> BucketKeyInfo option" where
  "row_for accessKeyID bucket = find (\<lambda>r. ki_AccessKeyID r = accessKeyID) (b_Keys bucket)"

text \<open>
  \<open>parseImportID\<close>: the loop over the byte index \<open>i\<close>, from \<open>0\<close>; \<open>id[:i]\<close> is
  \<open>take i\<close> and \<open>id[i+1:]\<close> is \<open>drop (i + 1)\<close>.
\<close>

function parseImportID_from :: "string \<Rightarrow> nat \<Rightarrow> string \<times> string \<times> bool" where
  "parseImportID_from ident i =
     (if i < length ident
      then (if ident ! i = CHR ''/''
            then (take i ident, drop (i + 1) ident, True)
            else parseImportID_from ident (i + 1))
      else ([], [], False))"
  by pat_completeness auto
termination
  by (relation "measure (\<lambda>(ident, i). length ident - i)") auto

declare parseImportID_from.simps [simp del]

definition parseImportID :: "string \<Rightarrow> string \<times> string \<times> bool" where
  "parseImportID ident = parseImportID_from ident 0"

text \<open>
  \<open>ImportState\<close> sets three attributes of the (empty) state, or reports the identifier.
  The state it sets is the list of the attributes set, in order.
\<close>

definition BucketPermission_ImportState :: "string \<Rightarrow> (string \<times> string) list outcome" where
  "BucketPermission_ImportState req_ID =
     (case parseImportID req_ID of
        (bucketID, accessKeyID, found) \<Rightarrow>
          if \<not> found
          then Failed ''Invalid Import ID''
                 (''Expected import ID format: bucket_id/access_key_id, got: '' @ req_ID)
          else SetState [(''id'', req_ID), (''bucket_id'', bucketID),
                         (''access_key_id'', accessKeyID)])"

subsection \<open>The key resource\<close>

record KeyResourceModel =
  k_ID :: "string tfval"
  k_Name :: "string tfval"
  k_SecretAccessKey :: "string tfval"

definition Key_createReq :: "KeyResourceModel \<Rightarrow> CreateKeyRequest" where
  "Key_createReq data =
     \<lparr>ck_Name = (if \<not> IsNull (k_Name data) then Some (ValueString (k_Name data)) else None),
      ck_Expiration = None\<rparr>"

definition Key_Create :: "api \<Rightarrow> KeyResourceModel \<Rightarrow> call list \<times> KeyResourceModel outcome" where
  "Key_Create cl data =
     (case api_CreateKey cl (Key_createReq data) of
        Inl err \<Rightarrow>
          ([CallCreateKey (Key_createReq data)],
           Failed ''Client Error'' (''Unable to create access key, got error: '' @ err))
      | Inr key \<Rightarrow>
          ([CallCreateKey (Key_createReq data)],
           SetState
             (data\<lparr>k_ID := TfKnown (ak_AccessKeyID key),
                   k_Name := TfKnown (ak_Name key),
                   k_SecretAccessKey :=
                     (case ak_SecretAccessKey key of
                        Some s \<Rightarrow> TfKnown s
                      | None \<Rightarrow> k_SecretAccessKey data)\<rparr>)))"

definition Key_Read :: "api \<Rightarrow> KeyResourceModel \<Rightarrow> call list \<times> KeyResourceModel outcome" where
  "Key_Read cl data =
     (let getReq = \<lparr>gk_ID = ValueString (k_ID data)\<rparr>
      in case api_GetKeyInfo cl getReq of
           Inl err \<Rightarrow>
             ([CallGetKeyInfo getReq],
              Failed ''Client Error'' (''Unable to read access key, got error: '' @ err))
         | Inr None \<Rightarrow> ([CallGetKeyInfo getReq], RemoveResource)
         | Inr (Some key) \<Rightarrow>
             ([CallGetKeyInfo getReq],
              SetState (data\<lparr>k_ID := TfKnown (ak_AccessKeyID key),
                              k_Name := TfKnown (ak_Name key)\<rparr>)))"

definition Key_Update :: "api \<Rightarrow> KeyResourceModel \<Rightarrow> call list \<times> KeyResourceModel outcome" where
  "Key_Update cl data = ([], SetState data)"

text \<open>
  \<open>Schema\<close> of the key resource: of each attribute, whether it is required, optional,
  computed and sensitive, and whether it has the plan modifier \<open>UseStateForUnknown\<close>.
  \<open>Key_attribute\<close> reads the model by the \<open>tfsdk\<close> tags of its fields.
\<close>

record StringAttribute =
  at_Required :: bool
  at_Optional :: bool
  at_Computed :: bool
  at_Sensitive :: bool
  at_UseStateForUnknown :: bool

definition KeyResource_Schema :: "(string \<times> StringAttribute) list" where
  "KeyResource_Schema =
     [(''id'',
       \<lparr>at_Required = False, at_Optional = False, at_Computed = True, at_Sensitive = False,
        at_UseStateForUnknown = True\<rparr>),
      (''name'',
       \<lparr>at_Required = False, at_Optional = True, at_Computed = True, at_Sensitive = False,
        at_UseStateForUnknown = False\<rparr>),
      (''secret_access_key'',
       \<lparr>at_Required = False, at_Optional = False, at_Computed = True, at_Sensitive = True,
        at_UseStateForUnknown = True\<rparr>)]"

definition Key_attribute :: "KeyResourceModel \<Rightarrow> string \<Rightarrow> string tfval" where
  "Key_attribute m n =
     (if n = ''id'' then k_ID m
      else if n = ''name'' then k_Name m
      else if n = ''secret_access_key'' then k_SecretAccessKey m
      else TfNull)"

text \<open>
  What the plugin framework does with a configuration before it calls \<open>Create\<close>. It
  validates the configuration against the schema: an attribute that is computed and not
  optional is read-only, and a configuration that gives it a value is refused with the
  diagnostic \<open>Invalid Configuration for Read-Only Attribute\<close>; no method of the resource
  runs then. Otherwise the plan of a create is the configuration, with the computed
  attributes the configuration leaves out unknown, and \<open>Create\<close> is called with it.
\<close>

definition read_only_errors ::
  "(string \<times> StringAttribute) list \<Rightarrow> (string \<Rightarrow> string tfval) \<Rightarrow> string list" where
  "read_only_errors schema config =
     map fst
       (filter (\<lambda>na. at_Computed (snd na) \<and> \<not> at_Optional (snd na) \<and>
                      \<not> IsNull (config (fst na)))
          schema)"

definition planned ::
  "(string \<times> StringAttribute) list \<Rightarrow> (string \<Rightarrow> string tfval) \<Rightarrow> string \<Rightarrow> string tfval" where
  "planned schema config n =
     (case map_of schema n of
        Some a \<Rightarrow> if at_Computed a \<and> IsNull (config n) then TfUnknown else config n
      | None \<Rightarrow> config n)"

definition Key_create_from_config ::
  "api \<Rightarrow> KeyResourceModel \<Rightarrow> call list \<times> KeyResourceModel outcome" where
  "Key_create_from_config cl config =
     (case read_only_errors KeyResource_Schema (Key_attribute config) of
        n # ns \<Rightarrow> ([], Failed ''Invalid Configuration for Read-Only Attribute'' n)
      | [] \<Rightarrow>
          Key_Create cl
            \<lparr>k_ID = planned KeyResource_Schema (Key_attribute config) ''id'',
             k_Name = planned KeyResource_Schema (Key_attribute config) ''name'',
             k_SecretAccessKey =
               planned KeyResource_Schema (Key_attribute config) ''secret_access_key''\<rparr>)"

subsection \<open>The bucket resource\<close>

record BucketResourceModel =
  bk_ID :: "string tfval"
  bk_GlobalAlias :: "string tfval"
  bk_WebsiteEnabled :: "bool tfval"
  bk_WebsiteIndex :: "string tfval"
  bk_WebsiteError :: "string tfval"
  bk_MaxSize :: "int64 tfval"
  bk_MaxObjects :: "int64 tfval"

text \<open>The request \<open>Create\<close> builds after the bucket exists, with \<open>needsUpdate\<close>.\<close>

definition Create_updateReq :: "BucketResourceModel \<Rightarrow> UpdateBucketRequest \<times> bool" where
  "Create_updateReq data =
     (let website = (\<not> IsNull (bk_WebsiteEnabled data) \<or> \<not> IsNull (bk_WebsiteIndex data) \<or>
                     \<not> IsNull (bk_WebsiteError data));
          quotas = (\<not> IsNull (bk_MaxSize data) \<or> \<not> IsNull (bk_MaxObjects data))
      in (\<lparr>ub_WebsiteAccess =
              (if website
               then Some \<lparr>wa_Enabled = ValueBool (bk_WebsiteEnabled data),
                          wa_IndexDocument =
                            (if \<not> IsNull (bk_WebsiteIndex data)
                             then Some (ValueString (bk_WebsiteIndex data)) else None),
                          wa_ErrorDocument =
                            (if \<not> IsNull (bk_WebsiteError data)
                             then Some (ValueString (bk_WebsiteError data)) else None)\<rparr>
               else None),
            ub_Quotas =
              (if quotas
               then Some \<lparr>MaxSize =
                            (if \<not> IsNull (bk_MaxSize data)
                             then Some (ValueInt64 (bk_MaxSize data)) else None),
                          MaxObjects =
                            (if \<not> IsNull (bk_MaxObjects data)
                             then Some (ValueInt64 (bk_MaxObjects data)) else None)\<rparr>
               else None)\<rparr>,
          website \<or> quotas))"

definition Bucket_createReq :: "BucketResourceModel \<Rightarrow> CreateBucketRequest" where
  "Bucket_createReq data =
     \<lparr>cb_GlobalAlias = Some (ValueString (bk_GlobalAlias data)), cb_LocalAlias = None\<rparr>"

definition Bucket_Create ::
  "api \<Rightarrow> BucketResourceModel \<Rightarrow> call list \<times> BucketResourceModel outcome" where
  "Bucket_Create cl data =
     (case api_CreateBucket cl (Bucket_createReq data) of
        Inl err \<Rightarrow>
          ([CallCreateBucket (Bucket_createReq data)],
           Failed ''Client Error'' (''Unable to create bucket, got error: '' @ err))
      | Inr bucket \<Rightarrow>
          (case Create_updateReq data of
             (updateReq, needsUpdate) \<Rightarrow>
               if needsUpdate
               then (case api_UpdateBucket cl (b_ID bucket) updateReq of
                       Inl err \<Rightarrow>
                         ([CallCreateBucket (Bucket_createReq data),
                           CallUpdateBucket (b_ID bucket) updateReq],
                          Failed ''Client Error''
                            (''Unable to update bucket, got error: '' @ err))
                     | Inr b' \<Rightarrow>
                         ([CallCreateBucket (Bucket_createReq data),
                           CallUpdateBucket (b_ID bucket) updateReq],
                          SetState (data\<lparr>bk_ID := TfKnown (b_ID bucket)\<rparr>)))
               else ([CallCreateBucket (Bucket_createReq data)],
                     SetState (data\<lparr>bk_ID := TfKnown (b_ID bucket)\<rparr>))))"

text \<open>What \<open>Read\<close> writes into the model from the bucket the server returned.\<close>

definition Read_fromBucket :: "BucketResourceModel \<Rightarrow> Bucket \<Rightarrow> BucketResourceModel" where
  "Read_fromBucket data bucket =
     data\<lparr>bk_ID := TfKnown (b_ID bucket),
          bk_GlobalAlias :=
            (case b_GlobalAliases bucket of
               a # rest \<Rightarrow> TfKnown a
             | [] \<Rightarrow> bk_GlobalAlias data),
          bk_WebsiteEnabled := TfKnown (b_WebsiteAccess bucket),
          bk_WebsiteIndex :=
            (case b_WebsiteConfig bucket of
               Some w \<Rightarrow> TfKnown (IndexDocument w)
             | None \<Rightarrow> TfNull),
          bk_WebsiteError :=
            (case b_WebsiteConfig bucket of
               Some w \<Rightarrow> TfKnown (ErrorDocument w)
             | None \<Rightarrow> TfNull),
          bk_MaxSize :=
            (case b_Quotas bucket of
               Some q \<Rightarrow> (case MaxSize q of Some n \<Rightarrow> TfKnown n | None \<Rightarrow> TfNull)
             | None \<Rightarrow> TfNull),
          bk_MaxObjects :=
            (case b_Quotas bucket of
               Some q \<Rightarrow> (case MaxObjects q of Some n \<Rightarrow> TfKnown n | None \<Rightarrow> TfNull)
             | None \<Rightarrow> TfNull)\<rparr>"

definition Bucket_Read ::
  "api \<Rightarrow> BucketResourceModel \<Rightarrow> call list \<times> BucketResourceModel outcome" where
  "Bucket_Read cl data =
     (let getReq = \<lparr>gb_ID = Some (ValueString (bk_ID data)), gb_GlobalAlias = None\<rparr>
      in case api_GetBucketInfo cl getReq of
           Inl err \<Rightarrow>
             ([CallGetBucketInfo getReq],
              Failed ''Client Error'' (''Unable to read bucket, got error: '' @ err))
         | Inr None \<Rightarrow> ([CallGetBucketInfo getReq], RemoveResource)
         | Inr (Some bucket) \<Rightarrow>
             ([CallGetBucketInfo getReq], SetState (Read_fromBucket data bucket)))"

subsection \<open>Servers of the tests\<close>

text \<open>
  The test server of \<open>TestGetBucketInfo_notFound\<close> and \<open>TestClient_errorHandling\<close>:
  every request is answered by the same response, and no body decodes.
\<close>

definition always_server :: "http_response \<Rightarrow> env" where
  "always_server resp =
     \<lparr>Marshal = (\<lambda>b. Inr ''{}''),
      NewRequestWithContext =
        (\<lambda>method url body.
           Inr \<lparr>rq_Method = method, rq_URL = url, rq_Header = Map.empty, rq_Body = body\<rparr>),
      Do = (\<lambda>req. Inr resp),
      DecodeBuckets = (\<lambda>s. Inl ''EOF''),
      DecodeBucket = (\<lambda>s. Inl ''EOF''),
      DecodeAccessKey = (\<lambda>s. Inl ''EOF'')\<rparr>"

text \<open>
  A client none of whose calls reaches the server, and the values the examples below
  let a server return: an access key, and a bucket with its key list and quotas.
\<close>

definition failing_api :: api where
  "failing_api =
     \<lparr>api_GetBucketInfo = (\<lambda>r. Inl ''connection refused''),
      api_CreateBucket = (\<lambda>r. Inl ''connection refused''),
      api_UpdateBucket = (\<lambda>i r. Inl ''connection refused''),
      api_AllowBucketKey = (\<lambda>r. Inl ''connection refused''),
      api_DenyBucketKey = (\<lambda>r. Inl ''connection refused''),
      api_CreateKey = (\<lambda>r. Inl ''connection refused''),
      api_GetKeyInfo = (\<lambda>r. Inl ''connection refused'')\<rparr>"

definition test_key :: "string \<Rightarrow> string \<Rightarrow> string option \<Rightarrow> AccessKey" where
  "test_key i n s =
     \<lparr>ak_AccessKeyID = i, ak_Name = n, ak_Expired = False, ak_Created = None,
      ak_Expiration = None, ak_SecretAccessKey = s,
      ak_Permissions = \<lparr>CreateBucket_perm = False\<rparr>, ak_Buckets = []\<rparr>"

definition test_bucket :: "string \<Rightarrow> BucketKeyInfo list \<Rightarrow> BucketQuotas option \<Rightarrow> Bucket" where
  "test_bucket i ks q =
     \<lparr>b_ID = i, b_GlobalAliases = [''my-bucket''], b_WebsiteAccess = False,
      b_WebsiteConfig = None, b_Keys = ks, b_Objects = 0, b_Bytes = 0,
      b_UnfinishedUploads = 0, b_Quotas = q\<rparr>"

text \<open>
  A permission resource of bucket \<open>b1\<close> and key \<open>k1\<close> with the three flags given, a
  server that answers a grant with the key list holding what was granted and a revoke
  with an empty key list, and a server whose grant fails and whose revoke succeeds.
\<close>

definition perm_model :: "bool \<Rightarrow> bool \<Rightarrow> bool \<Rightarrow> BucketPermissionResourceModel" where
  "perm_model r w o' =
     \<lparr>bp_ID = TfKnown ''b1/k1'', bp_BucketID = TfKnown ''b1'', bp_AccessKeyID = TfKnown ''k1'',
      bp_Read = TfKnown r, bp_Write = TfKnown w, bp_Owner = TfKnown o'\<rparr>"

definition echo_api :: api where
  "echo_api =
     failing_api
       \<lparr>api_AllowBucketKey :=
          (\<lambda>r. Inr (test_bucket (pr_BucketID r)
                   [\<lparr>ki_AccessKeyID = pr_AccessKeyID r, ki_Name = ''app'',
                     ki_Permissions = pr_Permissions r\<rparr>] None)),
        api_DenyBucketKey := (\<lambda>r. Inr (test_bucket (pr_BucketID r) [] None))\<rparr>"

definition grant_fails_api :: api where
  "grant_fails_api =
     failing_api\<lparr>api_DenyBucketKey := (\<lambda>r. Inr (test_bucket (pr_BucketID r) [] None))\<rparr>"

text \<open>A server whose grant succeeds, as that of \<open>echo_api\<close>, and whose revoke fails.\<close>

definition revoke_fails_api :: api where
  "revoke_fails_api =
     failing_api
       \<lparr>api_AllowBucketKey :=
          (\<lambda>r. Inr (test_bucket (pr_BucketID r)
                   [\<lparr>ki_AccessKeyID = pr_AccessKeyID r, ki_Name = ''app'',
                     ki_Permissions = pr_Permissions r\<rparr>] None))\<rparr>"

text \<open>
  A plan for a bucket with \<open>max_size\<close> set as in \<open>TestUpdateBucket\<close>, and a server that
  keeps the quotas it is sent.
\<close>

definition quota_plan :: BucketResourceModel where
  "quota_plan =
     \<lparr>bk_ID = TfUnknown, bk_GlobalAlias = TfKnown ''my-bucket'',
      bk_WebsiteEnabled = TfKnown False, bk_WebsiteIndex = TfNull, bk_WebsiteError = TfNull,
      bk_MaxSize = TfKnown 1073741824, bk_MaxObjects = TfNull\<rparr>"

definition quota_api :: api where
  "quota_api =
     failing_api
       \<lparr>api_GetBucketInfo :=
          (\<lambda>r. Inr (Some (test_bucket ''bucket-123'' []
                      (Some \<lparr>MaxSize = Some 1073741824, MaxObjects = None\<rparr>)))),
        api_CreateBucket := (\<lambda>r. Inr (test_bucket ''bucket-123'' [] None)),
        api_UpdateBucket := (\<lambda>i r. Inr (test_bucket i [] (ub_Quotas r)))\<rparr>"

section \<open>The client: how a response is classified\<close>

lemma doRequest_always_server:
  "doRequest (always_server resp) c method path body = Inr resp"
  by (cases body) (simp_all add: doRequest_def marshal_body_def always_server_def)

text \<open>
  Claim C3. \<open>GetBucketInfo\<close> and \<open>GetKeyInfo\<close> answer a response of status 404 with
  the absent result and no error (\<open>Inr None\<close>: a nil pointer and a nil error), whatever
  the body of the response is.
\<close>

theorem lookup_404_is_absent:
  "(doRequest env c ''GET'' (GetBucketInfo_path breq) None = Inr resp \<and>
      StatusCode resp = StatusNotFound \<longrightarrow> GetBucketInfo env c breq = Inr None) \<and>
   (doRequest env c ''GET'' (''/v2/GetKeyInfo?id='' @ gk_ID kreq) None = Inr resp \<and>
      StatusCode resp = StatusNotFound \<longrightarrow> GetKeyInfo env c kreq = Inr None)"
  by (simp add: GetBucketInfo_def GetKeyInfo_def)

theorem lookup_404_is_absent_witness:
  "GetBucketInfo (always_server \<lparr>StatusCode = 404, Body = ''Bucket not found''\<rparr>)
      (NewClient ''http://localhost:3903'' ''test-token'')
      \<lparr>gb_ID = Some ''nonexistent'', gb_GlobalAlias = None\<rparr> = Inr None \<and>
   GetKeyInfo (always_server \<lparr>StatusCode = 404, Body = ''Bucket not found''\<rparr>)
      (NewClient ''http://localhost:3903'' ''test-token'')
      \<lparr>gk_ID = ''GK00''\<rparr> = Inr None"
  using lookup_404_is_absent
    [of "always_server \<lparr>StatusCode = 404, Body = ''Bucket not found''\<rparr>"
        "NewClient ''http://localhost:3903'' ''test-token''"
        "\<lparr>gb_ID = Some ''nonexistent'', gb_GlobalAlias = None\<rparr>"
        "\<lparr>StatusCode = 404, Body = ''Bucket not found''\<rparr>"
        "\<lparr>gk_ID = ''GK00''\<rparr>"]
  by (simp add: doRequest_always_server)

lemma status_error_has_code: "sublist (fmt_d (StatusCode resp)) (status_error resp)"
  unfolding status_error_def by (rule sublist_appendI)

lemma status_error_has_body: "sublist (Body resp) (status_error resp)"
proof -
  have "status_error resp =
          (''API request failed with status '' @ fmt_d (StatusCode resp) @ '': '') @ Body resp @ []"
    by (simp add: status_error_def)
  then show ?thesis
    by (metis sublist_appendI)
qed

text \<open>
  Claim C4. A response whose status is neither 2xx nor 404 makes every method of the
  client return an error (the methods that return only an error return it as \<open>Some\<close>),
  and the message of that error is \<open>API request failed with status\<close>, the status code
  in decimal, a colon and the body as it was read: it contains the code and the body.
\<close>

theorem other_status_is_error:
  assumes "\<not> (200 \<le> StatusCode resp \<and> StatusCode resp \<le> 299)"
    and "StatusCode resp \<noteq> StatusNotFound"
  shows
  "(doRequest env c ''GET'' ''/v2/ListBuckets'' None = Inr resp \<longrightarrow>
      ListBuckets env c = Inl (status_error resp)) \<and>
   (doRequest env c ''GET'' (GetBucketInfo_path breq) None = Inr resp \<longrightarrow>
      GetBucketInfo env c breq = Inl (status_error resp)) \<and>
   (doRequest env c ''POST'' ''/v2/CreateBucket'' (Some (BodyCreateBucket creq)) = Inr resp \<longrightarrow>
      CreateBucket env c creq = Inl (status_error resp)) \<and>
   (doRequest env c ''POST'' (''/v2/UpdateBucket?id='' @ bid) (Some (BodyUpdateBucket ureq)) = Inr resp \<longrightarrow>
      UpdateBucket env c bid ureq = Inl (status_error resp)) \<and>
   (doRequest env c ''POST'' (''/v2/DeleteBucket?id='' @ db_ID dreq) None = Inr resp \<longrightarrow>
      DeleteBucket env c dreq = Some (status_error resp)) \<and>
   (doRequest env c ''POST'' ''/v2/AddBucketAlias''
        (Some (BodyMap [(''id'', bid), (''alias'', alias)])) = Inr resp \<longrightarrow>
      AddBucketAlias env c bid alias = Some (status_error resp)) \<and>
   (doRequest env c ''POST'' ''/v2/RemoveBucketAlias''
        (Some (BodyMap [(''id'', bid), (''alias'', alias)])) = Inr resp \<longrightarrow>
      RemoveBucketAlias env c bid alias = Some (status_error resp)) \<and>
   (doRequest env c ''POST'' ''/v2/AllowBucketKey'' (Some (BodyPerm preq)) = Inr resp \<longrightarrow>
      AllowBucketKey env c preq = Inl (status_error resp)) \<and>
   (doRequest env c ''POST'' ''/v2/DenyBucketKey'' (Some (BodyPerm preq)) = Inr resp \<longrightarrow>
      DenyBucketKey env c preq = Inl (status_error resp)) \<and>
   (doRequest env c ''POST'' ''/v2/CreateKey'' (Some (BodyCreateKey kreq)) = Inr resp \<longrightarrow>
      CreateKey env c kreq = Inl (status_error resp)) \<and>
   (doRequest env c ''GET'' (''/v2/GetKeyInfo?id='' @ gk_ID greq) None = Inr resp \<longrightarrow>
      GetKeyInfo env c greq = Inl (status_error resp)) \<and>
   (doRequest env c ''POST'' (''/v2/DeleteKey?id='' @ dk_ID xreq) None = Inr resp \<longrightarrow>
      DeleteKey env c xreq = Some (status_error resp)) \<and>
   status_error resp =
     ''API request failed with status '' @ fmt_d (StatusCode resp) @ '': '' @ Body resp \<and>
   sublist (fmt_d (StatusCode resp)) (status_error resp) \<and>
   sublist (Body resp) (status_error resp)"
proof -
  from assms have ne: "StatusCode resp \<noteq> 200" "StatusCode resp \<noteq> 201"
    "StatusCode resp \<noteq> 204" "StatusCode resp \<noteq> 404"
    by auto
  show ?thesis
    using ne status_error_has_code [of resp] status_error_has_body [of resp]
    by (simp add: ListBuckets_def GetBucketInfo_def CreateBucket_def UpdateBucket_def
        DeleteBucket_def AddBucketAlias_def RemoveBucketAlias_def AllowBucketKey_def
        DenyBucketKey_def CreateKey_def GetKeyInfo_def DeleteKey_def status_error_def)
qed

lemma fmt_500: "fmt_d 500 = ''500''"
  by code_simp

theorem other_status_is_error_witness:
  "ListBuckets (always_server \<lparr>StatusCode = 500, Body = ''Internal server error''\<rparr>)
      (NewClient ''http://localhost:3903'' ''test-token'') =
     Inl ''API request failed with status 500: Internal server error'' \<and>
   GetBucketInfo (always_server \<lparr>StatusCode = 500, Body = ''Internal server error''\<rparr>)
      (NewClient ''http://localhost:3903'' ''test-token'')
      \<lparr>gb_ID = Some ''test'', gb_GlobalAlias = None\<rparr> =
     Inl ''API request failed with status 500: Internal server error'' \<and>
   DeleteBucket (always_server \<lparr>StatusCode = 500, Body = ''Internal server error''\<rparr>)
      (NewClient ''http://localhost:3903'' ''test-token'') \<lparr>db_ID = ''test''\<rparr> =
     Some ''API request failed with status 500: Internal server error'' \<and>
   sublist ''500'' ''API request failed with status 500: Internal server error'' \<and>
   sublist ''Internal server error''
     ''API request failed with status 500: Internal server error''"
  using other_status_is_error
    [where resp = "\<lparr>StatusCode = 500, Body = ''Internal server error''\<rparr>"
       and env = "always_server \<lparr>StatusCode = 500, Body = ''Internal server error''\<rparr>"
       and c = "NewClient ''http://localhost:3903'' ''test-token''"
       and breq = "\<lparr>gb_ID = Some ''test'', gb_GlobalAlias = None\<rparr>"
       and dreq = "\<lparr>db_ID = ''test''\<rparr>"]
  by (simp add: doRequest_always_server status_error_def fmt_500)

section \<open>The client: construction\<close>

lemma HasSuffix_slash: "HasSuffix s ''/'' = (s \<noteq> [] \<and> last s = CHR ''/'')"
proof (cases s rule: rev_cases)
  case Nil
  then show ?thesis by (simp add: HasSuffix_def)
next
  case (snoc ys y)
  then show ?thesis by (auto simp: HasSuffix_def)
qed

lemma HasSuffix_two_slashes:
  "HasSuffix s ''//'' = (\<exists>r. s = r @ ''//'')"
proof
  assume "HasSuffix s ''//''"
  then have d: "drop (length s - length ''//'') s = ''//''"
    unfolding HasSuffix_def by blast
  have "s = take (length s - length ''//'') s @ drop (length s - length ''//'') s"
    by (rule append_take_drop_id [symmetric])
  with d have "s = take (length s - length ''//'') s @ ''//''" by simp
  then show "\<exists>r. s = r @ ''//''" by blast
next
  assume "\<exists>r. s = r @ ''//''"
  then show "HasSuffix s ''//''" by (auto simp: HasSuffix_def)
qed

lemma NewClient_endpoint:
  "endpoint (NewClient e t) = (if HasSuffix e ''/'' then butlast e else e)"
  by (simp add: NewClient_def TrimSuffix_def butlast_conv_take)

lemma NewClient_no_slash_left:
  assumes n: "\<not> HasSuffix e ''//''"
  shows "\<not> HasSuffix (endpoint (NewClient e t)) ''/''"
proof (cases "HasSuffix e ''/''")
  case False
  then show ?thesis by (simp add: NewClient_endpoint)
next
  case True
  then obtain r where e: "e = r @ ''/''"
    by (metis HasSuffix_slash append_butlast_last_id)
  have r: "endpoint (NewClient e t) = r"
    using True by (simp add: NewClient_endpoint e)
  show ?thesis
  proof
    assume "HasSuffix (endpoint (NewClient e t)) ''/''"
    then have "HasSuffix r ''/''" by (simp only: r)
    then obtain r' where "r = r' @ ''/''"
      by (metis HasSuffix_slash append_butlast_last_id)
    with e have "e = r' @ ''//''" by simp
    with n show False by (auto simp: HasSuffix_two_slashes)
  qed
qed

text \<open>
  Claim C8, as amended. \<open>NewClient\<close> stores the token unchanged and removes one trailing
  slash from the endpoint when there is one (\<open>strings.TrimSuffix\<close>), so \<open>http://h/\<close> is
  stored as \<open>http://h\<close>. The stored endpoint has no trailing slash whenever the endpoint
  given does not end with two slashes.
\<close>

theorem NewClient_trims_one_slash:
  "token (NewClient e t) = t \<and>
   endpoint (NewClient e t) = (if HasSuffix e ''/'' then butlast e else e) \<and>
   (\<not> HasSuffix e ''//'' \<longrightarrow> \<not> HasSuffix (endpoint (NewClient e t)) ''/'') \<and>
   NewClient ''http://h/'' t = \<lparr>endpoint = ''http://h'', token = t\<rparr>"
proof -
  have a: "token (NewClient e t) = t" by (simp add: NewClient_def)
  have d: "NewClient ''http://h/'' t = \<lparr>endpoint = ''http://h'', token = t\<rparr>"
    by (simp add: NewClient_def TrimSuffix_def HasSuffix_def)
  from a d NewClient_endpoint [of e t] NewClient_no_slash_left [of e t]
  show ?thesis by blast
qed

theorem NewClient_trims_one_slash_witness:
  "\<not> HasSuffix ''http://localhost:3903/'' ''//'' \<and>
   endpoint (NewClient ''http://localhost:3903/'' ''token'') = ''http://localhost:3903'' \<and>
   \<not> HasSuffix (endpoint (NewClient ''http://localhost:3903/'' ''token'')) ''/'' \<and>
   token (NewClient ''http://localhost:3903/'' ''token'') = ''token''"
proof -
  note t = NewClient_trims_one_slash [of "''http://localhost:3903/''" "''token''"]
  have h: "\<not> HasSuffix ''http://localhost:3903/'' ''//''"
    by (simp add: HasSuffix_def)
  have s: "HasSuffix ''http://localhost:3903/'' ''/''"
    by (simp add: HasSuffix_def)
  from t h have 1: "\<not> HasSuffix (endpoint (NewClient ''http://localhost:3903/'' ''token'')) ''/''"
    by blast
  from t s have "endpoint (NewClient ''http://localhost:3903/'' ''token'') =
      butlast ''http://localhost:3903/''"
    by simp
  then have 2: "endpoint (NewClient ''http://localhost:3903/'' ''token'') =
      ''http://localhost:3903''"
    by simp
  from t have 3: "token (NewClient ''http://localhost:3903/'' ''token'') = ''token''"
    by blast
  from h 1 2 3 show ?thesis by blast
qed

text \<open>
  The claim as stated fails for an endpoint that ends with two slashes: \<open>Configure\<close>
  accepts the pair and the client keeps one of the slashes.
\<close>

theorem NewClient_two_slashes_counterexample:
  "Configure (\<lambda>v. [])
      \<lparr>cfg_Endpoint = TfKnown ''http://h//'', cfg_Token = TfKnown ''t''\<rparr> =
     ([], Some (NewClient ''http://h//'' ''t'')) \<and>
   endpoint (NewClient ''http://h//'' ''t'') = ''http://h/'' \<and>
   HasSuffix (endpoint (NewClient ''http://h//'' ''t'')) ''/''"
  by (simp add: Configure_def NewClient_def TrimSuffix_def HasSuffix_def)

section \<open>The key resource\<close>

text \<open>
  Claim C10. \<open>Update\<close> of a key calls no method of the client and sets the state to the
  plan as it is; a plan that differs from the state in the name of the key is written
  to the state without a call, so the new name never reaches the server.
\<close>

theorem Key_Update_is_local:
  "fst (Key_Update cl data) = [] \<and> snd (Key_Update cl data) = SetState data \<and>
   Key_Update cl (state\<lparr>k_Name := TfKnown new_name\<rparr>) =
     ([], SetState (state\<lparr>k_Name := TfKnown new_name\<rparr>))"
  by (simp add: Key_Update_def)

text \<open>
  Claim C9. When \<open>GetKeyInfo\<close> finds the key, \<open>Read\<close> sets the state to the prior state
  with the id and the name of the key the server returned; the secret access key is the
  one of the prior state, whatever the response says about a secret.
\<close>

theorem Key_Read_keeps_secret:
  assumes "api_GetKeyInfo cl \<lparr>gk_ID = ValueString (k_ID data)\<rparr> = Inr (Some key)"
  shows "Key_Read cl data =
           ([CallGetKeyInfo \<lparr>gk_ID = ValueString (k_ID data)\<rparr>],
            SetState \<lparr>k_ID = TfKnown (ak_AccessKeyID key), k_Name = TfKnown (ak_Name key),
                      k_SecretAccessKey = k_SecretAccessKey data\<rparr>)"
  using assms by (simp add: Key_Read_def)

theorem Key_Read_keeps_secret_witness:
  "Key_Read (failing_api\<lparr>api_GetKeyInfo := (\<lambda>r. Inr (Some (test_key ''GK01'' ''renamed'' (Some ''other''))))\<rparr>)
      \<lparr>k_ID = TfKnown ''GK01'', k_Name = TfKnown ''my-key'', k_SecretAccessKey = TfKnown ''s3cr3t''\<rparr> =
     ([CallGetKeyInfo \<lparr>gk_ID = ''GK01''\<rparr>],
      SetState \<lparr>k_ID = TfKnown ''GK01'', k_Name = TfKnown ''renamed'',
                k_SecretAccessKey = TfKnown ''s3cr3t''\<rparr>)"
  using Key_Read_keeps_secret
    [of "failing_api\<lparr>api_GetKeyInfo := (\<lambda>r. Inr (Some (test_key ''GK01'' ''renamed'' (Some ''other''))))\<rparr>"
        "\<lparr>k_ID = TfKnown ''GK01'', k_Name = TfKnown ''my-key'', k_SecretAccessKey = TfKnown ''s3cr3t''\<rparr>"
        "test_key ''GK01'' ''renamed'' (Some ''other'')"]
  by (simp add: test_key_def)

text \<open>
  What the schema lets a configuration of a key say: \<open>id\<close> and \<open>secret_access_key\<close>
  are read-only, so a configuration is refused exactly when it gives one of them.
\<close>

lemma Key_read_only_errors:
  "read_only_errors KeyResource_Schema (Key_attribute config) =
     (if IsNull (k_ID config) then [] else [''id'']) @
     (if IsNull (k_SecretAccessKey config) then [] else [''secret_access_key''])"
  by (simp add: read_only_errors_def KeyResource_Schema_def Key_attribute_def)

lemma Key_planned:
  "planned KeyResource_Schema (Key_attribute config) ''id'' =
     (if IsNull (k_ID config) then TfUnknown else k_ID config)"
  "planned KeyResource_Schema (Key_attribute config) ''name'' =
     (if IsNull (k_Name config) then TfUnknown else k_Name config)"
  "planned KeyResource_Schema (Key_attribute config) ''secret_access_key'' =
     (if IsNull (k_SecretAccessKey config) then TfUnknown else k_SecretAccessKey config)"
  by (simp_all add: planned_def KeyResource_Schema_def Key_attribute_def)

lemma Key_config_no_credentials_accepted:
  "Key_create_from_config cl \<lparr>k_ID = TfNull, k_Name = n, k_SecretAccessKey = TfNull\<rparr> =
     Key_Create cl
       \<lparr>k_ID = TfUnknown, k_Name = (if IsNull n then TfUnknown else n),
        k_SecretAccessKey = TfUnknown\<rparr>"
  by (simp add: Key_create_from_config_def Key_read_only_errors Key_planned)

lemma Key_config_one_credential_refused:
  "Key_create_from_config cl \<lparr>k_ID = TfKnown i, k_Name = n, k_SecretAccessKey = TfNull\<rparr> =
     ([], Failed ''Invalid Configuration for Read-Only Attribute'' ''id'')"
  "Key_create_from_config cl \<lparr>k_ID = TfNull, k_Name = n, k_SecretAccessKey = TfKnown s\<rparr> =
     ([], Failed ''Invalid Configuration for Read-Only Attribute'' ''secret_access_key'')"
  by (simp_all add: Key_create_from_config_def Key_read_only_errors)

text \<open>
  Claim C2 says that a create with both \<open>id\<close> and \<open>secret_access_key\<close> is accepted
  (the key is adopted, as \<open>TestAccKeyResource_importWithPredefinedCredentials\<close> expects)
  and that one with exactly one of them is refused before any call. The second half
  holds, by the schema (\<open>Key_config_one_credential_refused\<close>). The first does not: a
  configuration with both is refused in the same way, for every id, secret and name,
  that of the test included, and no call is made. \<open>Create\<close> has no adoption either:
  the request it builds is the same whatever id and secret the model holds.
\<close>

theorem Key_both_credentials_refused:
  "Key_create_from_config cl \<lparr>k_ID = TfKnown i, k_Name = n, k_SecretAccessKey = TfKnown s\<rparr> =
     ([], Failed ''Invalid Configuration for Read-Only Attribute'' ''id'') \<and>
   Key_create_from_config cl
     \<lparr>k_ID = TfKnown ''GK0123456789abcdef01234567'',
      k_Name = TfKnown ''test-imported-key'',
      k_SecretAccessKey =
        TfKnown ''0123456789abcdef0123456789abcdef0123456789abcdef0123456789abcdef''\<rparr> =
     ([], Failed ''Invalid Configuration for Read-Only Attribute'' ''id'') \<and>
   Key_createReq \<lparr>k_ID = TfKnown i, k_Name = n, k_SecretAccessKey = TfKnown s\<rparr> =
     Key_createReq \<lparr>k_ID = TfUnknown, k_Name = n, k_SecretAccessKey = TfUnknown\<rparr>"
  by (simp add: Key_create_from_config_def Key_read_only_errors Key_createReq_def)

section \<open>The bucket permission resource: import\<close>

lemma parseImportID_from_split:
  "i \<le> length ident \<Longrightarrow>
   parseImportID_from ident i =
     (if CHR ''/'' \<in> set (drop i ident)
      then (take i ident @ takeWhile (\<lambda>c. c \<noteq> CHR ''/'') (drop i ident),
            tl (dropWhile (\<lambda>c. c \<noteq> CHR ''/'') (drop i ident)), True)
      else ([], [], False))"
proof (induction ident i rule: parseImportID_from.induct)
  case (1 ident i)
  show ?case
  proof (cases "i < length ident")
    case False
    with "1.prems" have "drop i ident = []" by simp
    with False show ?thesis
      by (subst parseImportID_from.simps) simp
  next
    case True
    then have d: "drop i ident = ident ! i # drop (Suc i) ident"
      by (simp add: Cons_nth_drop_Suc)
    show ?thesis
    proof (cases "ident ! i = CHR ''/''")
      case slash: True
      with True d show ?thesis
        by (subst parseImportID_from.simps) simp
    next
      case other: False
      from True have t: "take (Suc i) ident = take i ident @ [ident ! i]"
        by (simp add: take_Suc_conv_app_nth)
      from True other have "parseImportID_from ident (i + 1) =
          (if CHR ''/'' \<in> set (drop (i + 1) ident)
           then (take (i + 1) ident @ takeWhile (\<lambda>c. c \<noteq> CHR ''/'') (drop (i + 1) ident),
                 tl (dropWhile (\<lambda>c. c \<noteq> CHR ''/'') (drop (i + 1) ident)), True)
           else ([], [], False))"
        by (intro "1.IH") simp_all
      with True other d t show ?thesis
        by (subst parseImportID_from.simps) auto
    qed
  qed
qed

lemma parseImportID_split:
  "parseImportID ident =
     (if CHR ''/'' \<in> set ident
      then (takeWhile (\<lambda>c. c \<noteq> CHR ''/'') ident,
            tl (dropWhile (\<lambda>c. c \<noteq> CHR ''/'') ident), True)
      else ([], [], False))"
  using parseImportID_from_split [of 0 ident] by (simp add: parseImportID_def)

lemma takeWhile_before: "c \<notin> set b \<Longrightarrow> takeWhile (\<lambda>x. x \<noteq> c) (b @ c # k) = b"
  by (induction b) auto

lemma dropWhile_before: "c \<notin> set b \<Longrightarrow> dropWhile (\<lambda>x. x \<noteq> c) (b @ c # k) = c # k"
  by (induction b) auto

text \<open>
  Claim C6. An import identifier with a slash is split at its first slash: the bucket id
  is what stands before it and the access key id all that follows it (later slashes
  included), so \<open>b1/k1\<close> gives \<open>b1\<close> and \<open>k1\<close>, and \<open>ImportState\<close> sets \<open>id\<close>,
  \<open>bucket_id\<close> and \<open>access_key_id\<close>. An identifier without a slash is rejected with
  the diagnostic \<open>Invalid Import ID\<close> and no attribute is set.
\<close>

theorem ImportState_splits_on_first_slash:
  "(CHR ''/'' \<notin> set b \<longrightarrow>
      parseImportID (b @ CHR ''/'' # k) = (b, k, True) \<and>
      BucketPermission_ImportState (b @ CHR ''/'' # k) =
        SetState [(''id'', b @ CHR ''/'' # k), (''bucket_id'', b), (''access_key_id'', k)]) \<and>
   (CHR ''/'' \<in> set ident \<longrightarrow>
      parseImportID ident =
        (takeWhile (\<lambda>c. c \<noteq> CHR ''/'') ident,
         tl (dropWhile (\<lambda>c. c \<noteq> CHR ''/'') ident), True)) \<and>
   (CHR ''/'' \<notin> set ident \<longrightarrow>
      parseImportID ident = ([], [], False) \<and>
      BucketPermission_ImportState ident =
        Failed ''Invalid Import ID''
          (''Expected import ID format: bucket_id/access_key_id, got: '' @ ident)) \<and>
   parseImportID ''b1/k1'' = (''b1'', ''k1'', True)"
proof -
  have a: "parseImportID (b @ CHR ''/'' # k) = (b, k, True)" if "CHR ''/'' \<notin> set b"
    using that by (simp add: parseImportID_split takeWhile_before dropWhile_before)
  have e: "parseImportID ''b1/k1'' = (''b1'', ''k1'', True)"
    by (simp add: parseImportID_split)
  show ?thesis
    using a e by (simp add: BucketPermission_ImportState_def parseImportID_split)
qed

theorem ImportState_splits_on_first_slash_witness:
  "BucketPermission_ImportState ''b1/k1/x'' =
     SetState [(''id'', ''b1/k1/x''), (''bucket_id'', ''b1''), (''access_key_id'', ''k1/x'')] \<and>
   parseImportID ''b1/k1/x'' = (''b1'', ''k1/x'', True) \<and>
   parseImportID ''b1k1'' = ([], [], False) \<and>
   BucketPermission_ImportState ''b1k1'' =
     Failed ''Invalid Import ID''
       ''Expected import ID format: bucket_id/access_key_id, got: b1k1''"
proof -
  have 1: "CHR ''/'' \<notin> set ''b1''" by simp
  have 2: "CHR ''/'' \<notin> set ''b1k1''" by simp
  from ImportState_splits_on_first_slash [of "''b1''" "''k1/x''" "''b1k1''"] 1 2
  show ?thesis by simp
qed

section \<open>The bucket resource: quotas\<close>

text \<open>
  Claim C7. For a plan with \<open>max_size\<close> set to \<open>v\<close>, \<open>Create\<close> sends the quotas with
  that \<open>maxSize\<close> to \<open>UpdateBucket\<close> and, when both calls succeed, sets the state to the
  plan with the id of the bucket; and \<open>Read\<close> of a bucket whose quotas are the ones that
  were sent gives \<open>max_size = v\<close> again. A plan with neither quota sends no quotas, and
  \<open>Read\<close> of a bucket with no quotas (the field absent, or both of its members absent)
  gives \<open>max_size\<close> and \<open>max_objects\<close> null, not zero.
\<close>

theorem quota_round_trip:
  "(bk_MaxSize data = TfKnown v \<longrightarrow>
      snd (Create_updateReq data) \<and>
      (\<exists>q. ub_Quotas (fst (Create_updateReq data)) = Some q \<and> MaxSize q = Some v)) \<and>
   (bk_MaxSize data = TfKnown v \<and>
    api_CreateBucket cl (Bucket_createReq data) = Inr bc \<and>
    api_UpdateBucket cl (b_ID bc) (fst (Create_updateReq data)) = Inr bu \<longrightarrow>
      Bucket_Create cl data =
        ([CallCreateBucket (Bucket_createReq data),
          CallUpdateBucket (b_ID bc) (fst (Create_updateReq data))],
         SetState (data\<lparr>bk_ID := TfKnown (b_ID bc)\<rparr>))) \<and>
   (bk_MaxSize data = TfKnown v \<and>
    api_GetBucketInfo cl' \<lparr>gb_ID = Some (ValueString (bk_ID st)), gb_GlobalAlias = None\<rparr> =
      Inr (Some b) \<and>
    b_Quotas b = ub_Quotas (fst (Create_updateReq data)) \<longrightarrow>
      (\<exists>st'. snd (Bucket_Read cl' st) = SetState st' \<and> bk_MaxSize st' = TfKnown v)) \<and>
   (IsNull (bk_MaxSize data) \<and> IsNull (bk_MaxObjects data) \<longrightarrow>
      ub_Quotas (fst (Create_updateReq data)) = None) \<and>
   (api_GetBucketInfo cl' \<lparr>gb_ID = Some (ValueString (bk_ID st)), gb_GlobalAlias = None\<rparr> =
      Inr (Some b) \<and>
    (b_Quotas b = None \<or> b_Quotas b = Some \<lparr>MaxSize = None, MaxObjects = None\<rparr>) \<longrightarrow>
      (\<exists>st'. snd (Bucket_Read cl' st) = SetState st' \<and>
             bk_MaxSize st' = TfNull \<and> bk_MaxObjects st' = TfNull))"
proof -
  have a: "snd (Create_updateReq data) \<and>
      (\<exists>q. ub_Quotas (fst (Create_updateReq data)) = Some q \<and> MaxSize q = Some v)"
    if "bk_MaxSize data = TfKnown v"
    using that by (simp add: Create_updateReq_def Let_def)
  have b: "Bucket_Create cl data =
        ([CallCreateBucket (Bucket_createReq data),
          CallUpdateBucket (b_ID bc) (fst (Create_updateReq data))],
         SetState (data\<lparr>bk_ID := TfKnown (b_ID bc)\<rparr>))"
    if "bk_MaxSize data = TfKnown v"
      and "api_CreateBucket cl (Bucket_createReq data) = Inr bc"
      and "api_UpdateBucket cl (b_ID bc) (fst (Create_updateReq data)) = Inr bu"
    using that a [OF that(1)]
    by (cases "Create_updateReq data") (simp add: Bucket_Create_def)
  have c: "\<exists>st'. snd (Bucket_Read cl' st) = SetState st' \<and> bk_MaxSize st' = TfKnown v"
    if "bk_MaxSize data = TfKnown v"
      and "api_GetBucketInfo cl' \<lparr>gb_ID = Some (ValueString (bk_ID st)), gb_GlobalAlias = None\<rparr> =
        Inr (Some b)"
      and "b_Quotas b = ub_Quotas (fst (Create_updateReq data))"
  proof -
    from a [OF that(1)] that(3) obtain q where "b_Quotas b = Some q" "MaxSize q = Some v"
      by auto
    with that(2) show ?thesis
      by (simp add: Bucket_Read_def Read_fromBucket_def)
  qed
  have d: "ub_Quotas (fst (Create_updateReq data)) = None"
    if "IsNull (bk_MaxSize data) \<and> IsNull (bk_MaxObjects data)"
    using that by (simp add: Create_updateReq_def Let_def)
  have e: "\<exists>st'. snd (Bucket_Read cl' st) = SetState st' \<and>
             bk_MaxSize st' = TfNull \<and> bk_MaxObjects st' = TfNull"
    if "api_GetBucketInfo cl' \<lparr>gb_ID = Some (ValueString (bk_ID st)), gb_GlobalAlias = None\<rparr> =
        Inr (Some b)"
      and "b_Quotas b = None \<or> b_Quotas b = Some \<lparr>MaxSize = None, MaxObjects = None\<rparr>"
    using that by (auto simp: Bucket_Read_def Read_fromBucket_def)
  from a b c d e show ?thesis by blast
qed

theorem quota_round_trip_witness:
  "Bucket_Create quota_api quota_plan =
     ([CallCreateBucket \<lparr>cb_GlobalAlias = Some ''my-bucket'', cb_LocalAlias = None\<rparr>,
       CallUpdateBucket ''bucket-123''
         \<lparr>ub_WebsiteAccess =
            Some \<lparr>wa_Enabled = False, wa_IndexDocument = None, wa_ErrorDocument = None\<rparr>,
          ub_Quotas = Some \<lparr>MaxSize = Some 1073741824, MaxObjects = None\<rparr>\<rparr>],
      SetState (quota_plan\<lparr>bk_ID := TfKnown ''bucket-123''\<rparr>)) \<and>
   (\<exists>st'. snd (Bucket_Read quota_api (quota_plan\<lparr>bk_ID := TfKnown ''bucket-123''\<rparr>)) =
            SetState st' \<and> bk_MaxSize st' = TfKnown 1073741824)"
proof -
  note t = quota_round_trip
    [where data = quota_plan and v = 1073741824 and cl = quota_api
       and bc = "test_bucket ''bucket-123'' [] None"
       and bu = "test_bucket ''bucket-123'' []
                   (Some \<lparr>MaxSize = Some 1073741824, MaxObjects = None\<rparr>)"
       and cl' = quota_api and st = "quota_plan\<lparr>bk_ID := TfKnown ''bucket-123''\<rparr>"
       and b = "test_bucket ''bucket-123'' []
                  (Some \<lparr>MaxSize = Some 1073741824, MaxObjects = None\<rparr>)"]
  have r: "Create_updateReq quota_plan =
      (\<lparr>ub_WebsiteAccess =
          Some \<lparr>wa_Enabled = False, wa_IndexDocument = None, wa_ErrorDocument = None\<rparr>,
        ub_Quotas = Some \<lparr>MaxSize = Some 1073741824, MaxObjects = None\<rparr>\<rparr>, True)"
    by (simp add: Create_updateReq_def quota_plan_def)
  have c: "Bucket_createReq quota_plan =
      \<lparr>cb_GlobalAlias = Some ''my-bucket'', cb_LocalAlias = None\<rparr>"
    by (simp add: Bucket_createReq_def quota_plan_def)
  have m: "bk_MaxSize quota_plan = TfKnown 1073741824"
    by (simp add: quota_plan_def)
  have h1: "api_CreateBucket quota_api (Bucket_createReq quota_plan) =
      Inr (test_bucket ''bucket-123'' [] None)"
    by (simp add: quota_api_def)
  have h2: "api_UpdateBucket quota_api (b_ID (test_bucket ''bucket-123'' [] None))
        (fst (Create_updateReq quota_plan)) =
      Inr (test_bucket ''bucket-123'' []
             (Some \<lparr>MaxSize = Some 1073741824, MaxObjects = None\<rparr>))"
    by (simp add: quota_api_def r test_bucket_def)
  have h3: "api_GetBucketInfo quota_api
        \<lparr>gb_ID = Some (ValueString (bk_ID (quota_plan\<lparr>bk_ID := TfKnown ''bucket-123''\<rparr>))),
         gb_GlobalAlias = None\<rparr> =
      Inr (Some (test_bucket ''bucket-123'' []
             (Some \<lparr>MaxSize = Some 1073741824, MaxObjects = None\<rparr>)))"
    by (simp add: quota_api_def)
  have h4: "b_Quotas (test_bucket ''bucket-123'' []
             (Some \<lparr>MaxSize = Some 1073741824, MaxObjects = None\<rparr>)) =
      ub_Quotas (fst (Create_updateReq quota_plan))"
    by (simp add: r test_bucket_def)
  from t m h1 h2 have 1: "Bucket_Create quota_api quota_plan =
        ([CallCreateBucket (Bucket_createReq quota_plan),
          CallUpdateBucket (b_ID (test_bucket ''bucket-123'' [] None))
            (fst (Create_updateReq quota_plan))],
         SetState (quota_plan\<lparr>bk_ID := TfKnown (b_ID (test_bucket ''bucket-123'' [] None))\<rparr>))"
    by blast
  from t m h3 h4 have 2: "\<exists>st'. snd (Bucket_Read quota_api
          (quota_plan\<lparr>bk_ID := TfKnown ''bucket-123''\<rparr>)) = SetState st' \<and>
        bk_MaxSize st' = TfKnown 1073741824"
    by blast
  from 1 have "Bucket_Create quota_api quota_plan =
     ([CallCreateBucket \<lparr>cb_GlobalAlias = Some ''my-bucket'', cb_LocalAlias = None\<rparr>,
       CallUpdateBucket ''bucket-123''
         \<lparr>ub_WebsiteAccess =
            Some \<lparr>wa_Enabled = False, wa_IndexDocument = None, wa_ErrorDocument = None\<rparr>,
          ub_Quotas = Some \<lparr>MaxSize = Some 1073741824, MaxObjects = None\<rparr>\<rparr>],
      SetState (quota_plan\<lparr>bk_ID := TfKnown ''bucket-123''\<rparr>))"
    by (simp add: r c test_bucket_def)
  with 2 show ?thesis by blast
qed

section \<open>The bucket permission resource: reconciliation\<close>

text \<open>
  The conditions of the two \<open>if\<close>s of \<open>Update\<close> are the specification's \<open>some flag
  turns on\<close> and \<open>some flag turns off\<close>; the calls \<open>Update\<close> makes follow from them.
\<close>

lemma any_turns_on_iff:
  "((readChanged data state \<and> ValueBool (bp_Read data)) \<or>
    (writeChanged data state \<and> ValueBool (bp_Write data)) \<or>
    (ownerChanged data state \<and> ValueBool (bp_Owner data))) = any_turns_on data state"
  by (simp add: any_turns_on_def turns_on_def readChanged_def writeChanged_def ownerChanged_def)

lemma any_turns_off_iff:
  "((readChanged data state \<and> \<not> ValueBool (bp_Read data)) \<or>
    (writeChanged data state \<and> \<not> ValueBool (bp_Write data)) \<or>
    (ownerChanged data state \<and> \<not> ValueBool (bp_Owner data))) = any_turns_off data state"
  by (simp add: any_turns_off_def turns_off_def readChanged_def writeChanged_def ownerChanged_def)

lemma Update_unfold:
  "BucketPermission_Update cl data state =
     (if any_turns_on data state
      then (case api_AllowBucketKey cl (Update_allowReq data state) of
              Inl err \<Rightarrow>
                ([CallAllowBucketKey (Update_allowReq data state)],
                 Failed ''Client Error''
                   (''Unable to grant bucket permissions, got error: '' @ err))
            | Inr b \<Rightarrow>
                Update_deny cl data state [CallAllowBucketKey (Update_allowReq data state)]
                  (Some b))
      else Update_deny cl data state [] None)"
  unfolding BucketPermission_Update_def any_turns_on_iff ..

lemma Update_deny_unfold:
  "Update_deny cl data state calls bucket =
     (if any_turns_off data state
      then (case api_DenyBucketKey cl (Update_denyReq data state) of
              Inl err \<Rightarrow>
                (calls @ [CallDenyBucketKey (Update_denyReq data state)],
                 Failed ''Client Error''
                   (''Unable to revoke bucket permissions, got error: '' @ err))
            | Inr b \<Rightarrow>
                Update_finish data (calls @ [CallDenyBucketKey (Update_denyReq data state)])
                  (Some b))
      else Update_finish data calls bucket)"
  unfolding Update_deny_def any_turns_off_iff ..

lemma fst_Update_deny:
  "fst (Update_deny cl data state calls bucket) =
     calls @ (if any_turns_off data state
              then [CallDenyBucketKey (Update_denyReq data state)] else [])"
  by (simp add: Update_deny_unfold Update_finish_def split: sum.split option.split)

lemma Update_trace:
  "fst (BucketPermission_Update cl data state) =
     (if any_turns_on data state
      then [CallAllowBucketKey (Update_allowReq data state)] else []) @
     (if any_turns_off data state \<and>
         (any_turns_on data state \<longrightarrow>
            (\<exists>b. api_AllowBucketKey cl (Update_allowReq data state) = Inr b))
      then [CallDenyBucketKey (Update_denyReq data state)] else [])"
  by (cases "api_AllowBucketKey cl (Update_allowReq data state)")
     (simp_all add: Update_unfold fst_Update_deny)

lemma allowReq_perms:
  "Update_allowReq data state =
     \<lparr>pr_BucketID = ValueString (bp_BucketID data),
      pr_AccessKeyID = ValueString (bp_AccessKeyID data),
      pr_Permissions =
        \<lparr>Read = turns_on (bp_Read state) (bp_Read data),
         Write = turns_on (bp_Write state) (bp_Write data),
         Owner = turns_on (bp_Owner state) (bp_Owner data)\<rparr>\<rparr>"
  by (simp add: Update_allowReq_def turns_on_def readChanged_def writeChanged_def
      ownerChanged_def)

lemma denyReq_perms:
  "Update_denyReq data state =
     \<lparr>pr_BucketID = ValueString (bp_BucketID data),
      pr_AccessKeyID = ValueString (bp_AccessKeyID data),
      pr_Permissions =
        \<lparr>Read = turns_off (bp_Read state) (bp_Read data),
         Write = turns_off (bp_Write state) (bp_Write data),
         Owner = turns_off (bp_Owner state) (bp_Owner data)\<rparr>\<rparr>"
  by (simp add: Update_denyReq_def turns_off_def readChanged_def writeChanged_def
      ownerChanged_def)

text \<open>
  Claim C1, as amended. \<open>Update\<close> makes no call when no flag changed. When a flag turns
  on it makes exactly one \<open>AllowBucketKey\<close> call, whose permissions are true exactly for
  the flags that turn on. When a flag turns off, and the grant call (if one was made) did
  not fail, it makes exactly one \<open>DenyBucketKey\<close> call, whose permissions are true
  exactly for the flags that turn off; when the grant call fails, \<open>Update\<close> returns and
  makes no revoke call. It makes no other call, at most two in all. From
  \<open>(false, false, false)\<close> to \<open>(true, true, false)\<close> the calls are one grant with
  \<open>(true, true, false)\<close>, and from \<open>(true, true, true)\<close> to \<open>(false, false, false)\<close> one
  revoke with \<open>(true, true, true)\<close>.
\<close>

theorem Update_calls:
  "(ValueBool (bp_Read data) = ValueBool (bp_Read state) \<and>
    ValueBool (bp_Write data) = ValueBool (bp_Write state) \<and>
    ValueBool (bp_Owner data) = ValueBool (bp_Owner state) \<longrightarrow>
      fst (BucketPermission_Update cl data state) = []) \<and>
   (any_turns_on data state \<longrightarrow>
      filter is_allow (fst (BucketPermission_Update cl data state)) =
        [CallAllowBucketKey (Update_allowReq data state)]) \<and>
   (\<not> any_turns_on data state \<longrightarrow>
      filter is_allow (fst (BucketPermission_Update cl data state)) = []) \<and>
   (any_turns_off data state \<and>
    (any_turns_on data state \<longrightarrow>
       (\<exists>b. api_AllowBucketKey cl (Update_allowReq data state) = Inr b)) \<longrightarrow>
      filter is_deny (fst (BucketPermission_Update cl data state)) =
        [CallDenyBucketKey (Update_denyReq data state)]) \<and>
   (\<not> any_turns_off data state \<longrightarrow>
      filter is_deny (fst (BucketPermission_Update cl data state)) = []) \<and>
   (any_turns_on data state \<and>
    (\<exists>err. api_AllowBucketKey cl (Update_allowReq data state) = Inl err) \<longrightarrow>
      filter is_deny (fst (BucketPermission_Update cl data state)) = []) \<and>
   Update_allowReq data state =
     \<lparr>pr_BucketID = ValueString (bp_BucketID data),
      pr_AccessKeyID = ValueString (bp_AccessKeyID data),
      pr_Permissions =
        \<lparr>Read = turns_on (bp_Read state) (bp_Read data),
         Write = turns_on (bp_Write state) (bp_Write data),
         Owner = turns_on (bp_Owner state) (bp_Owner data)\<rparr>\<rparr> \<and>
   Update_denyReq data state =
     \<lparr>pr_BucketID = ValueString (bp_BucketID data),
      pr_AccessKeyID = ValueString (bp_AccessKeyID data),
      pr_Permissions =
        \<lparr>Read = turns_off (bp_Read state) (bp_Read data),
         Write = turns_off (bp_Write state) (bp_Write data),
         Owner = turns_off (bp_Owner state) (bp_Owner data)\<rparr>\<rparr> \<and>
   length (fst (BucketPermission_Update cl data state)) \<le> 2 \<and>
   filter (\<lambda>c. \<not> is_allow c \<and> \<not> is_deny c) (fst (BucketPermission_Update cl data state)) = [] \<and>
   (\<not> ValueBool (bp_Read state) \<and> \<not> ValueBool (bp_Write state) \<and>
    \<not> ValueBool (bp_Owner state) \<and>
    ValueBool (bp_Read data) \<and> ValueBool (bp_Write data) \<and> \<not> ValueBool (bp_Owner data) \<longrightarrow>
      fst (BucketPermission_Update cl data state) =
        [CallAllowBucketKey
           \<lparr>pr_BucketID = ValueString (bp_BucketID data),
            pr_AccessKeyID = ValueString (bp_AccessKeyID data),
            pr_Permissions = \<lparr>Read = True, Write = True, Owner = False\<rparr>\<rparr>]) \<and>
   (ValueBool (bp_Read state) \<and> ValueBool (bp_Write state) \<and> ValueBool (bp_Owner state) \<and>
    \<not> ValueBool (bp_Read data) \<and> \<not> ValueBool (bp_Write data) \<and>
    \<not> ValueBool (bp_Owner data) \<longrightarrow>
      fst (BucketPermission_Update cl data state) =
        [CallDenyBucketKey
           \<lparr>pr_BucketID = ValueString (bp_BucketID data),
            pr_AccessKeyID = ValueString (bp_AccessKeyID data),
            pr_Permissions = \<lparr>Read = True, Write = True, Owner = True\<rparr>\<rparr>])"
proof -
  let ?tr = "fst (BucketPermission_Update cl data state)"
  have same: "?tr = []"
    if "ValueBool (bp_Read data) = ValueBool (bp_Read state) \<and>
        ValueBool (bp_Write data) = ValueBool (bp_Write state) \<and>
        ValueBool (bp_Owner data) = ValueBool (bp_Owner state)"
    using that
    by (simp add: Update_trace any_turns_on_def any_turns_off_def turns_on_def turns_off_def)
  have grant: "filter is_allow ?tr =
      (if any_turns_on data state then [CallAllowBucketKey (Update_allowReq data state)] else [])"
    by (simp add: Update_trace)
  have revoke: "filter is_deny ?tr =
      (if any_turns_off data state \<and>
          (any_turns_on data state \<longrightarrow>
             (\<exists>b. api_AllowBucketKey cl (Update_allowReq data state) = Inr b))
       then [CallDenyBucketKey (Update_denyReq data state)] else [])"
    by (simp add: Update_trace)
  have len: "length ?tr \<le> 2"
    by (simp add: Update_trace)
  have others: "filter (\<lambda>c. \<not> is_allow c \<and> \<not> is_deny c) ?tr = []"
    by (simp add: Update_trace)
  have ex_on: "?tr =
        [CallAllowBucketKey
           \<lparr>pr_BucketID = ValueString (bp_BucketID data),
            pr_AccessKeyID = ValueString (bp_AccessKeyID data),
            pr_Permissions = \<lparr>Read = True, Write = True, Owner = False\<rparr>\<rparr>]"
    if "\<not> ValueBool (bp_Read state) \<and> \<not> ValueBool (bp_Write state) \<and>
        \<not> ValueBool (bp_Owner state) \<and>
        ValueBool (bp_Read data) \<and> ValueBool (bp_Write data) \<and> \<not> ValueBool (bp_Owner data)"
    using that
    by (simp add: Update_trace allowReq_perms any_turns_on_def any_turns_off_def turns_on_def
        turns_off_def)
  have ex_off: "?tr =
        [CallDenyBucketKey
           \<lparr>pr_BucketID = ValueString (bp_BucketID data),
            pr_AccessKeyID = ValueString (bp_AccessKeyID data),
            pr_Permissions = \<lparr>Read = True, Write = True, Owner = True\<rparr>\<rparr>]"
    if "ValueBool (bp_Read state) \<and> ValueBool (bp_Write state) \<and> ValueBool (bp_Owner state) \<and>
        \<not> ValueBool (bp_Read data) \<and> \<not> ValueBool (bp_Write data) \<and>
        \<not> ValueBool (bp_Owner data)"
    using that
    by (simp add: Update_trace denyReq_perms any_turns_on_def any_turns_off_def turns_on_def
        turns_off_def)
  have failed: "filter is_deny ?tr = []"
    if "any_turns_on data state \<and>
        (\<exists>err. api_AllowBucketKey cl (Update_allowReq data state) = Inl err)"
    using that by (auto simp: revoke)
  show ?thesis
    using same grant revoke len others ex_on ex_off failed
      allowReq_perms [of data state] denyReq_perms [of data state]
    by (intro conjI impI) simp_all
qed

theorem Update_calls_witness:
  "fst (BucketPermission_Update echo_api (perm_model True True False)
          (perm_model False False False)) =
     [CallAllowBucketKey
        \<lparr>pr_BucketID = ''b1'', pr_AccessKeyID = ''k1'',
         pr_Permissions = \<lparr>Read = True, Write = True, Owner = False\<rparr>\<rparr>] \<and>
   fst (BucketPermission_Update echo_api (perm_model False False False)
          (perm_model True True True)) =
     [CallDenyBucketKey
        \<lparr>pr_BucketID = ''b1'', pr_AccessKeyID = ''k1'',
         pr_Permissions = \<lparr>Read = True, Write = True, Owner = True\<rparr>\<rparr>] \<and>
   fst (BucketPermission_Update echo_api (perm_model True False True)
          (perm_model True False True)) = [] \<and>
   filter is_allow
     (fst (BucketPermission_Update echo_api (perm_model False True False)
             (perm_model True False False))) =
     [CallAllowBucketKey
        \<lparr>pr_BucketID = ''b1'', pr_AccessKeyID = ''k1'',
         pr_Permissions = \<lparr>Read = False, Write = True, Owner = False\<rparr>\<rparr>] \<and>
   filter is_deny
     (fst (BucketPermission_Update echo_api (perm_model False True False)
             (perm_model True False False))) =
     [CallDenyBucketKey
        \<lparr>pr_BucketID = ''b1'', pr_AccessKeyID = ''k1'',
         pr_Permissions = \<lparr>Read = True, Write = False, Owner = False\<rparr>\<rparr>]"
proof -
  note t1 = Update_calls [where cl = echo_api and data = "perm_model True True False"
      and state = "perm_model False False False"]
  note t2 = Update_calls [where cl = echo_api and data = "perm_model False False False"
      and state = "perm_model True True True"]
  note t3 = Update_calls [where cl = echo_api and data = "perm_model True False True"
      and state = "perm_model True False True"]
  note t4 = Update_calls [where cl = echo_api and data = "perm_model False True False"
      and state = "perm_model True False False"]
  from t1 have 1: "fst (BucketPermission_Update echo_api (perm_model True True False)
          (perm_model False False False)) =
     [CallAllowBucketKey
        \<lparr>pr_BucketID = ''b1'', pr_AccessKeyID = ''k1'',
         pr_Permissions = \<lparr>Read = True, Write = True, Owner = False\<rparr>\<rparr>]"
    by (simp add: perm_model_def)
  from t2 have 2: "fst (BucketPermission_Update echo_api (perm_model False False False)
          (perm_model True True True)) =
     [CallDenyBucketKey
        \<lparr>pr_BucketID = ''b1'', pr_AccessKeyID = ''k1'',
         pr_Permissions = \<lparr>Read = True, Write = True, Owner = True\<rparr>\<rparr>]"
    by (simp add: perm_model_def)
  from t3 have 3: "fst (BucketPermission_Update echo_api (perm_model True False True)
          (perm_model True False True)) = []"
    by simp
  have on: "any_turns_on (perm_model False True False) (perm_model True False False)"
    by (simp add: any_turns_on_def turns_on_def perm_model_def)
  have off: "any_turns_off (perm_model False True False) (perm_model True False False)"
    by (simp add: any_turns_off_def turns_off_def perm_model_def)
  have ok: "\<exists>b. api_AllowBucketKey echo_api
        (Update_allowReq (perm_model False True False) (perm_model True False False)) = Inr b"
    by (simp add: echo_api_def)
  from t4 on have "filter is_allow
     (fst (BucketPermission_Update echo_api (perm_model False True False)
             (perm_model True False False))) =
     [CallAllowBucketKey
        (Update_allowReq (perm_model False True False) (perm_model True False False))]"
    by blast
  moreover from t4 have "Update_allowReq (perm_model False True False)
      (perm_model True False False) =
     \<lparr>pr_BucketID = ''b1'', pr_AccessKeyID = ''k1'',
      pr_Permissions = \<lparr>Read = False, Write = True, Owner = False\<rparr>\<rparr>"
    by (simp add: perm_model_def turns_on_def)
  ultimately have 4: "filter is_allow
     (fst (BucketPermission_Update echo_api (perm_model False True False)
             (perm_model True False False))) =
     [CallAllowBucketKey
        \<lparr>pr_BucketID = ''b1'', pr_AccessKeyID = ''k1'',
         pr_Permissions = \<lparr>Read = False, Write = True, Owner = False\<rparr>\<rparr>]"
    by simp
  from t4 off ok have "filter is_deny
     (fst (BucketPermission_Update echo_api (perm_model False True False)
             (perm_model True False False))) =
     [CallDenyBucketKey
        (Update_denyReq (perm_model False True False) (perm_model True False False))]"
    by blast
  moreover from t4 have "Update_denyReq (perm_model False True False)
      (perm_model True False False) =
     \<lparr>pr_BucketID = ''b1'', pr_AccessKeyID = ''k1'',
      pr_Permissions = \<lparr>Read = True, Write = False, Owner = False\<rparr>\<rparr>"
    by (simp add: perm_model_def turns_off_def)
  ultimately have 5: "filter is_deny
     (fst (BucketPermission_Update echo_api (perm_model False True False)
             (perm_model True False False))) =
     [CallDenyBucketKey
        \<lparr>pr_BucketID = ''b1'', pr_AccessKeyID = ''k1'',
         pr_Permissions = \<lparr>Read = True, Write = False, Owner = False\<rparr>\<rparr>]"
    by simp
  from 1 2 3 4 5 show ?thesis by blast
qed

text \<open>
  The claim as stated fails when the grant call fails: from \<open>(true, false, false)\<close> to
  \<open>(false, true, false)\<close> the read flag turns off, the grant of the write flag is
  refused, and \<open>Update\<close> returns the error without a revoke call.
\<close>

theorem Update_grant_failure_counterexample:
  "any_turns_off (perm_model False True False) (perm_model True False False) \<and>
   BucketPermission_Update grant_fails_api (perm_model False True False)
       (perm_model True False False) =
     ([CallAllowBucketKey
         \<lparr>pr_BucketID = ''b1'', pr_AccessKeyID = ''k1'',
          pr_Permissions = \<lparr>Read = False, Write = True, Owner = False\<rparr>\<rparr>],
      Failed ''Client Error''
        ''Unable to grant bucket permissions, got error: connection refused'') \<and>
   filter is_deny
     (fst (BucketPermission_Update grant_fails_api (perm_model False True False)
             (perm_model True False False))) = []"
  by (simp add: Update_unfold any_turns_on_def any_turns_off_def turns_on_def turns_off_def
      perm_model_def grant_fails_api_def failing_api_def allowReq_perms)

lemma updateStateFromBucket_loop_find:
  "updateStateFromBucket_loop data k ks =
     (case find (\<lambda>r. ki_AccessKeyID r = k) ks of
        None \<Rightarrow> (data, False)
      | Some r \<Rightarrow>
          (data\<lparr>bp_Read := TfKnown (Read (ki_Permissions r)),
                bp_Write := TfKnown (Write (ki_Permissions r)),
                bp_Owner := TfKnown (Owner (ki_Permissions r))\<rparr>, True))"
  by (induction ks) simp_all

lemma updateStateFromBucket_row:
  "updateStateFromBucket data bucket =
     (case row_for (ValueString (bp_AccessKeyID data)) bucket of
        None \<Rightarrow>
          data\<lparr>bp_Read := TfKnown False, bp_Write := TfKnown False, bp_Owner := TfKnown False\<rparr>
      | Some r \<Rightarrow>
          data\<lparr>bp_Read := TfKnown (Read (ki_Permissions r)),
               bp_Write := TfKnown (Write (ki_Permissions r)),
               bp_Owner := TfKnown (Owner (ki_Permissions r))\<rparr>)"
  by (simp add: updateStateFromBucket_def updateStateFromBucket_loop_find row_for_def
      split: option.split)

lemma snd_Update_deny_ok:
  "any_turns_off data state \<Longrightarrow> api_DenyBucketKey cl (Update_denyReq data state) = Inr b \<Longrightarrow>
   snd (Update_deny cl data state calls bucket) = SetState (updateStateFromBucket data b)"
  by (simp add: Update_deny_unfold Update_finish_def)

lemma snd_Update_deny_skip:
  "\<not> any_turns_off data state \<Longrightarrow>
   snd (Update_deny cl data state calls (Some b)) = SetState (updateStateFromBucket data b)"
  by (simp add: Update_deny_unfold Update_finish_def)

lemma snd_Update_deny_failed:
  "any_turns_off data state \<Longrightarrow> api_DenyBucketKey cl (Update_denyReq data state) = Inl err \<Longrightarrow>
   snd (Update_deny cl data state calls bucket) =
     Failed ''Client Error'' (''Unable to revoke bucket permissions, got error: '' @ err)"
  by (simp add: Update_deny_unfold)

lemma fst_Create:
  "fst (BucketPermission_Create cl data) = [CallAllowBucketKey (Create_allowReq data)]"
  by (simp add: BucketPermission_Create_def split: sum.split)

text \<open>
  Claim C5, as amended. When the grant call of \<open>Create\<close> succeeds, and when the last
  call \<open>Update\<close> makes succeeds (the grant when no flag turns off, the revoke
  otherwise), the state is set to the model with its three flags taken from the key list
  of the bucket that call returned, with no further request to the server: the flags of
  the first row of the access key, or all three false when the list has no row of that
  key, which is no error (the state is set all the same). \<open>Create\<close> makes the grant
  call only and \<open>Update\<close> makes grant and revoke calls only. When a call of \<open>Update\<close>
  fails, the revoke after a successful grant included, \<open>Update\<close> returns the error of
  that call and sets no state.
\<close>

theorem flags_from_call_response:
  "(api_AllowBucketKey cl (Create_allowReq data) = Inr b \<longrightarrow>
      BucketPermission_Create cl data =
        ([CallAllowBucketKey (Create_allowReq data)],
         SetState
           (updateStateFromBucket
              (data\<lparr>bp_ID := TfKnown (ValueString (bp_BucketID data) @ ''/'' @
                                        ValueString (bp_AccessKeyID data))\<rparr>) b))) \<and>
   (any_turns_on data state \<and> \<not> any_turns_off data state \<and>
    api_AllowBucketKey cl (Update_allowReq data state) = Inr b \<longrightarrow>
      snd (BucketPermission_Update cl data state) = SetState (updateStateFromBucket data b)) \<and>
   (any_turns_off data state \<and>
    (any_turns_on data state \<longrightarrow>
       (\<exists>g. api_AllowBucketKey cl (Update_allowReq data state) = Inr g)) \<and>
    api_DenyBucketKey cl (Update_denyReq data state) = Inr b \<longrightarrow>
      snd (BucketPermission_Update cl data state) = SetState (updateStateFromBucket data b)) \<and>
   (row_for (ValueString (bp_AccessKeyID d)) b = Some r \<longrightarrow>
      updateStateFromBucket d b =
        d\<lparr>bp_Read := TfKnown (Read (ki_Permissions r)),
          bp_Write := TfKnown (Write (ki_Permissions r)),
          bp_Owner := TfKnown (Owner (ki_Permissions r))\<rparr>) \<and>
   (row_for (ValueString (bp_AccessKeyID d)) b = None \<longrightarrow>
      updateStateFromBucket d b =
        d\<lparr>bp_Read := TfKnown False, bp_Write := TfKnown False, bp_Owner := TfKnown False\<rparr>) \<and>
   fst (BucketPermission_Create cl data) = [CallAllowBucketKey (Create_allowReq data)] \<and>
   filter (\<lambda>c. \<not> is_allow c \<and> \<not> is_deny c) (fst (BucketPermission_Update cl data state)) = [] \<and>
   (any_turns_off data state \<and>
    (any_turns_on data state \<longrightarrow>
       (\<exists>g. api_AllowBucketKey cl (Update_allowReq data state) = Inr g)) \<and>
    api_DenyBucketKey cl (Update_denyReq data state) = Inl err \<longrightarrow>
      snd (BucketPermission_Update cl data state) =
        Failed ''Client Error'' (''Unable to revoke bucket permissions, got error: '' @ err)) \<and>
   (any_turns_on data state \<and>
    api_AllowBucketKey cl (Update_allowReq data state) = Inl err \<longrightarrow>
      snd (BucketPermission_Update cl data state) =
        Failed ''Client Error'' (''Unable to grant bucket permissions, got error: '' @ err))"
proof -
  have create: "BucketPermission_Create cl data =
        ([CallAllowBucketKey (Create_allowReq data)],
         SetState
           (updateStateFromBucket
              (data\<lparr>bp_ID := TfKnown (ValueString (bp_BucketID data) @ ''/'' @
                                        ValueString (bp_AccessKeyID data))\<rparr>) b))"
    if "api_AllowBucketKey cl (Create_allowReq data) = Inr b"
    using that by (simp add: BucketPermission_Create_def)
  have grant_only: "snd (BucketPermission_Update cl data state) =
      SetState (updateStateFromBucket data b)"
    if "any_turns_on data state" "\<not> any_turns_off data state"
      "api_AllowBucketKey cl (Update_allowReq data state) = Inr b"
    using that by (simp add: Update_unfold snd_Update_deny_skip)
  have revoke: "snd (BucketPermission_Update cl data state) =
      SetState (updateStateFromBucket data b)"
    if off: "any_turns_off data state"
      and ok: "any_turns_on data state \<longrightarrow>
         (\<exists>g. api_AllowBucketKey cl (Update_allowReq data state) = Inr g)"
      and deny: "api_DenyBucketKey cl (Update_denyReq data state) = Inr b"
  proof (cases "any_turns_on data state")
    case True
    with ok obtain g where "api_AllowBucketKey cl (Update_allowReq data state) = Inr g"
      by blast
    with True off deny show ?thesis
      by (simp add: Update_unfold snd_Update_deny_ok)
  next
    case False
    with off deny show ?thesis
      by (simp add: Update_unfold snd_Update_deny_ok)
  qed
  have found: "updateStateFromBucket d b =
        d\<lparr>bp_Read := TfKnown (Read (ki_Permissions r)),
          bp_Write := TfKnown (Write (ki_Permissions r)),
          bp_Owner := TfKnown (Owner (ki_Permissions r))\<rparr>"
    if "row_for (ValueString (bp_AccessKeyID d)) b = Some r"
    using that by (simp add: updateStateFromBucket_row)
  have absent: "updateStateFromBucket d b =
        d\<lparr>bp_Read := TfKnown False, bp_Write := TfKnown False, bp_Owner := TfKnown False\<rparr>"
    if "row_for (ValueString (bp_AccessKeyID d)) b = None"
    using that by (simp add: updateStateFromBucket_row)
  have only_call: "fst (BucketPermission_Create cl data) =
      [CallAllowBucketKey (Create_allowReq data)]"
    by (rule fst_Create)
  have others: "filter (\<lambda>c. \<not> is_allow c \<and> \<not> is_deny c)
      (fst (BucketPermission_Update cl data state)) = []"
    by (simp add: Update_trace)
  have revoke_failed: "snd (BucketPermission_Update cl data state) =
        Failed ''Client Error'' (''Unable to revoke bucket permissions, got error: '' @ err)"
    if off: "any_turns_off data state"
      and ok: "any_turns_on data state \<longrightarrow>
         (\<exists>g. api_AllowBucketKey cl (Update_allowReq data state) = Inr g)"
      and deny: "api_DenyBucketKey cl (Update_denyReq data state) = Inl err"
  proof (cases "any_turns_on data state")
    case True
    with ok obtain g where "api_AllowBucketKey cl (Update_allowReq data state) = Inr g"
      by blast
    with True off deny show ?thesis
      by (simp add: Update_unfold snd_Update_deny_failed)
  next
    case False
    with off deny show ?thesis
      by (simp add: Update_unfold snd_Update_deny_failed)
  qed
  have grant_failed: "snd (BucketPermission_Update cl data state) =
        Failed ''Client Error'' (''Unable to grant bucket permissions, got error: '' @ err)"
    if "any_turns_on data state" "api_AllowBucketKey cl (Update_allowReq data state) = Inl err"
    using that by (simp add: Update_unfold)
  from create grant_only revoke found absent only_call others revoke_failed grant_failed
  show ?thesis by blast
qed

theorem flags_from_call_response_witness:
  "BucketPermission_Create echo_api (perm_model True True False) =
     ([CallAllowBucketKey
         \<lparr>pr_BucketID = ''b1'', pr_AccessKeyID = ''k1'',
          pr_Permissions = \<lparr>Read = True, Write = True, Owner = False\<rparr>\<rparr>],
      SetState (perm_model True True False)) \<and>
   snd (BucketPermission_Update echo_api (perm_model False False False)
          (perm_model True True True)) =
     SetState (perm_model False False False) \<and>
   snd (BucketPermission_Update echo_api (perm_model True True False)
          (perm_model False False False)) =
     SetState (perm_model True True False) \<and>
   snd (BucketPermission_Update revoke_fails_api (perm_model False True False)
          (perm_model True False False)) =
     Failed ''Client Error''
       ''Unable to revoke bucket permissions, got error: connection refused'' \<and>
   snd (BucketPermission_Update grant_fails_api (perm_model False True False)
          (perm_model True False False)) =
     Failed ''Client Error''
       ''Unable to grant bucket permissions, got error: connection refused''"
proof -
  let ?row = "\<lparr>ki_AccessKeyID = ''k1'', ki_Name = ''app'',
               ki_Permissions = \<lparr>Read = True, Write = True, Owner = False\<rparr>\<rparr>"
  note t1 = flags_from_call_response
    [where cl = echo_api and data = "perm_model True True False"
       and state = "perm_model True True False"
       and b = "test_bucket ''b1'' [?row] None"
       and d = "perm_model True True False" and r = ?row]
  note t2 = flags_from_call_response
    [where cl = echo_api and data = "perm_model False False False"
       and state = "perm_model True True True"
       and b = "test_bucket ''b1'' [] None"
       and d = "perm_model False False False"]
  have req: "Create_allowReq (perm_model True True False) =
      \<lparr>pr_BucketID = ''b1'', pr_AccessKeyID = ''k1'',
       pr_Permissions = \<lparr>Read = True, Write = True, Owner = False\<rparr>\<rparr>"
    by (simp add: Create_allowReq_def perm_model_def)
  have a: "api_AllowBucketKey echo_api (Create_allowReq (perm_model True True False)) =
      Inr (test_bucket ''b1'' [?row] None)"
    by (simp add: req echo_api_def)
  have same_id: "(perm_model True True False)
      \<lparr>bp_ID := TfKnown (ValueString (bp_BucketID (perm_model True True False)) @ ''/'' @
                         ValueString (bp_AccessKeyID (perm_model True True False)))\<rparr> =
      perm_model True True False"
    by (simp add: perm_model_def)
  have row: "row_for (ValueString (bp_AccessKeyID (perm_model True True False)))
      (test_bucket ''b1'' [?row] None) = Some ?row"
    by (simp add: row_for_def test_bucket_def perm_model_def)
  from t1 a have "BucketPermission_Create echo_api (perm_model True True False) =
      ([CallAllowBucketKey (Create_allowReq (perm_model True True False))],
       SetState (updateStateFromBucket
          ((perm_model True True False)
             \<lparr>bp_ID := TfKnown (ValueString (bp_BucketID (perm_model True True False)) @ ''/'' @
                         ValueString (bp_AccessKeyID (perm_model True True False)))\<rparr>)
          (test_bucket ''b1'' [?row] None)))"
    by blast
  moreover from t1 row have "updateStateFromBucket (perm_model True True False)
      (test_bucket ''b1'' [?row] None) =
      (perm_model True True False)
        \<lparr>bp_Read := TfKnown (Read (ki_Permissions ?row)),
         bp_Write := TfKnown (Write (ki_Permissions ?row)),
         bp_Owner := TfKnown (Owner (ki_Permissions ?row))\<rparr>"
    by blast
  ultimately have 1: "BucketPermission_Create echo_api (perm_model True True False) =
     ([CallAllowBucketKey
         \<lparr>pr_BucketID = ''b1'', pr_AccessKeyID = ''k1'',
          pr_Permissions = \<lparr>Read = True, Write = True, Owner = False\<rparr>\<rparr>],
      SetState (perm_model True True False))"
    by (simp add: same_id req) (simp add: perm_model_def)
  have off: "any_turns_off (perm_model False False False) (perm_model True True True)"
    by (simp add: any_turns_off_def turns_off_def perm_model_def)
  have not_on: "\<not> any_turns_on (perm_model False False False) (perm_model True True True)"
    by (simp add: any_turns_on_def turns_on_def perm_model_def)
  have dn: "api_DenyBucketKey echo_api
      (Update_denyReq (perm_model False False False) (perm_model True True True)) =
      Inr (test_bucket ''b1'' [] None)"
    by (simp add: echo_api_def Update_denyReq_def perm_model_def)
  have none: "row_for (ValueString (bp_AccessKeyID (perm_model False False False)))
      (test_bucket ''b1'' [] None) = None"
    by (simp add: row_for_def test_bucket_def)
  from t2 off not_on dn have "snd (BucketPermission_Update echo_api (perm_model False False False)
      (perm_model True True True)) =
      SetState (updateStateFromBucket (perm_model False False False) (test_bucket ''b1'' [] None))"
    by blast
  moreover from t2 none have "updateStateFromBucket (perm_model False False False)
      (test_bucket ''b1'' [] None) =
      (perm_model False False False)
        \<lparr>bp_Read := TfKnown False, bp_Write := TfKnown False, bp_Owner := TfKnown False\<rparr>"
    by blast
  ultimately have 2: "snd (BucketPermission_Update echo_api (perm_model False False False)
          (perm_model True True True)) = SetState (perm_model False False False)"
    by (simp add: perm_model_def)
  note t3 = flags_from_call_response
    [where cl = echo_api and data = "perm_model True True False"
       and state = "perm_model False False False"
       and b = "test_bucket ''b1'' [?row] None"
       and d = "perm_model True True False" and r = ?row]
  note t4 = flags_from_call_response
    [where cl = revoke_fails_api and data = "perm_model False True False"
       and state = "perm_model True False False" and err = "''connection refused''"]
  note t5 = flags_from_call_response
    [where cl = grant_fails_api and data = "perm_model False True False"
       and state = "perm_model True False False" and err = "''connection refused''"]
  have on3: "any_turns_on (perm_model True True False) (perm_model False False False)"
    by (simp add: any_turns_on_def turns_on_def perm_model_def)
  have not_off3: "\<not> any_turns_off (perm_model True True False) (perm_model False False False)"
    by (simp add: any_turns_off_def turns_off_def perm_model_def)
  have a3: "api_AllowBucketKey echo_api
      (Update_allowReq (perm_model True True False) (perm_model False False False)) =
      Inr (test_bucket ''b1'' [?row] None)"
    by (simp add: echo_api_def allowReq_perms turns_on_def perm_model_def)
  from t3 on3 not_off3 a3 have "snd (BucketPermission_Update echo_api
      (perm_model True True False) (perm_model False False False)) =
      SetState (updateStateFromBucket (perm_model True True False)
         (test_bucket ''b1'' [?row] None))"
    by blast
  moreover from t3 row have "updateStateFromBucket (perm_model True True False)
      (test_bucket ''b1'' [?row] None) =
      (perm_model True True False)
        \<lparr>bp_Read := TfKnown (Read (ki_Permissions ?row)),
         bp_Write := TfKnown (Write (ki_Permissions ?row)),
         bp_Owner := TfKnown (Owner (ki_Permissions ?row))\<rparr>"
    by blast
  ultimately have 3: "snd (BucketPermission_Update echo_api (perm_model True True False)
          (perm_model False False False)) = SetState (perm_model True True False)"
    by (simp add: perm_model_def)
  have on4: "any_turns_on (perm_model False True False) (perm_model True False False)"
    by (simp add: any_turns_on_def turns_on_def perm_model_def)
  have off4: "any_turns_off (perm_model False True False) (perm_model True False False)"
    by (simp add: any_turns_off_def turns_off_def perm_model_def)
  have ok4: "\<exists>g. api_AllowBucketKey revoke_fails_api
      (Update_allowReq (perm_model False True False) (perm_model True False False)) = Inr g"
    by (simp add: revoke_fails_api_def)
  have dn4: "api_DenyBucketKey revoke_fails_api
      (Update_denyReq (perm_model False True False) (perm_model True False False)) =
      Inl ''connection refused''"
    by (simp add: revoke_fails_api_def failing_api_def)
  from t4 off4 ok4 dn4 have 4: "snd (BucketPermission_Update revoke_fails_api
      (perm_model False True False) (perm_model True False False)) =
      Failed ''Client Error''
        (''Unable to revoke bucket permissions, got error: '' @ ''connection refused'')"
    by blast
  have a5: "api_AllowBucketKey grant_fails_api
      (Update_allowReq (perm_model False True False) (perm_model True False False)) =
      Inl ''connection refused''"
    by (simp add: grant_fails_api_def failing_api_def)
  from t5 on4 a5 have 5: "snd (BucketPermission_Update grant_fails_api
      (perm_model False True False) (perm_model True False False)) =
      Failed ''Client Error''
        (''Unable to grant bucket permissions, got error: '' @ ''connection refused'')"
    by blast
  from 1 2 3 4 5 show ?thesis by simp
qed

text \<open>
  The claim as stated fails in two ways. From \<open>(true, false, false)\<close> to
  \<open>(false, true, false)\<close>, with a server that grants and then refuses the revoke, the
  grant call succeeds and \<open>Update\<close> returns the error of the revoke: the flags are not
  re-derived and no state is set. And the key list is never fetched again: \<open>Create\<close>
  sets the flags after its grant call alone, with no \<open>GetBucketInfo\<close> call.
\<close>

theorem grant_then_failed_revoke_counterexample:
  "api_AllowBucketKey revoke_fails_api
      (Update_allowReq (perm_model False True False) (perm_model True False False)) =
     Inr (test_bucket ''b1''
            [\<lparr>ki_AccessKeyID = ''k1'', ki_Name = ''app'',
              ki_Permissions = \<lparr>Read = False, Write = True, Owner = False\<rparr>\<rparr>] None) \<and>
   BucketPermission_Update revoke_fails_api (perm_model False True False)
       (perm_model True False False) =
     ([CallAllowBucketKey
         \<lparr>pr_BucketID = ''b1'', pr_AccessKeyID = ''k1'',
          pr_Permissions = \<lparr>Read = False, Write = True, Owner = False\<rparr>\<rparr>,
       CallDenyBucketKey
         \<lparr>pr_BucketID = ''b1'', pr_AccessKeyID = ''k1'',
          pr_Permissions = \<lparr>Read = True, Write = False, Owner = False\<rparr>\<rparr>],
      Failed ''Client Error''
        ''Unable to revoke bucket permissions, got error: connection refused'') \<and>
   BucketPermission_Create echo_api (perm_model True True False) =
     ([CallAllowBucketKey
         \<lparr>pr_BucketID = ''b1'', pr_AccessKeyID = ''k1'',
          pr_Permissions = \<lparr>Read = True, Write = True, Owner = False\<rparr>\<rparr>],
      SetState (perm_model True True False)) \<and>
   filter (\<lambda>c. \<exists>r. c = CallGetBucketInfo r)
     (fst (BucketPermission_Create echo_api (perm_model True True False))) = []"
proof -
  have a: "Update_allowReq (perm_model False True False) (perm_model True False False) =
      \<lparr>pr_BucketID = ''b1'', pr_AccessKeyID = ''k1'',
       pr_Permissions = \<lparr>Read = False, Write = True, Owner = False\<rparr>\<rparr>"
    by (simp add: allowReq_perms turns_on_def perm_model_def)
  have d: "Update_denyReq (perm_model False True False) (perm_model True False False) =
      \<lparr>pr_BucketID = ''b1'', pr_AccessKeyID = ''k1'',
       pr_Permissions = \<lparr>Read = True, Write = False, Owner = False\<rparr>\<rparr>"
    by (simp add: denyReq_perms turns_off_def perm_model_def)
  have on: "any_turns_on (perm_model False True False) (perm_model True False False)"
    by (simp add: any_turns_on_def turns_on_def perm_model_def)
  have off: "any_turns_off (perm_model False True False) (perm_model True False False)"
    by (simp add: any_turns_off_def turns_off_def perm_model_def)
  have 1: "api_AllowBucketKey revoke_fails_api
      (Update_allowReq (perm_model False True False) (perm_model True False False)) =
     Inr (test_bucket ''b1''
            [\<lparr>ki_AccessKeyID = ''k1'', ki_Name = ''app'',
              ki_Permissions = \<lparr>Read = False, Write = True, Owner = False\<rparr>\<rparr>] None)"
    by (simp add: a revoke_fails_api_def)
  have dn: "api_DenyBucketKey revoke_fails_api
      (Update_denyReq (perm_model False True False) (perm_model True False False)) =
      Inl ''connection refused''"
    by (simp add: revoke_fails_api_def failing_api_def)
  have 2: "BucketPermission_Update revoke_fails_api (perm_model False True False)
       (perm_model True False False) =
     ([CallAllowBucketKey
         \<lparr>pr_BucketID = ''b1'', pr_AccessKeyID = ''k1'',
          pr_Permissions = \<lparr>Read = False, Write = True, Owner = False\<rparr>\<rparr>,
       CallDenyBucketKey
         \<lparr>pr_BucketID = ''b1'', pr_AccessKeyID = ''k1'',
          pr_Permissions = \<lparr>Read = True, Write = False, Owner = False\<rparr>\<rparr>],
      Failed ''Client Error''
        ''Unable to revoke bucket permissions, got error: connection refused'')"
    using on off 1 dn by (simp add: Update_unfold Update_deny_unfold a d)
  have 3: "BucketPermission_Create echo_api (perm_model True True False) =
     ([CallAllowBucketKey
         \<lparr>pr_BucketID = ''b1'', pr_AccessKeyID = ''k1'',
          pr_Permissions = \<lparr>Read = True, Write = True, Owner = False\<rparr>\<rparr>],
      SetState (perm_model True True False))"
    by (simp add: BucketPermission_Create_def Create_allowReq_def echo_api_def
        updateStateFromBucket_row row_for_def test_bucket_def perm_model_def)
  from 1 2 3 show ?thesis by simp
qed

end
